theory Spec2Isabelle
  imports Complex_Main "HOL-Library.Multiset"
begin

section \<open>Data model (models/Transaction.js, models/User.js)\<close>

text \<open>
  An ObjectId is a natural number and a Date is its number of milliseconds since the epoch.
  A JavaScript Number is a finite binary64 value, held as the real it denotes; sums and
  differences are rounded as binary64 rounds them (next section). The strings of the schema
  (status, role) stay strings, as the code compares them; a character is a code point
  below 256.
\<close>

type_synonym objectId = nat
type_synonym date = int

text \<open>The fields of a User document that the transaction routes read: \<open>_id\<close> and
  \<open>username\<close>. The same record is \<open>req.user\<close>, the authenticated caller.\<close>

record user =
  user_id :: objectId
  username :: string

text \<open>An element of \<open>payments\<close>: \<open>{ amount: Number (required), date: Date, notes: String }\<close>.\<close>

record payment =
  p_amount :: real
  p_date :: date
  p_notes :: "string option"

text \<open>A Transaction document; \<open>tid\<close> is \<open>_id\<close>, \<open>borrowerId\<close> is \<open>None\<close> for \<open>null\<close>.\<close>

record transaction =
  tid :: objectId
  lender :: objectId
  borrower :: string
  borrowerId :: "objectId option"
  amount :: real
  interestRate :: real
  startDate :: date
  dueDate :: date
  status :: string
  description :: "string option"
  payments :: "payment list"
  totalPaid :: real
  remainingAmount :: real
  createdAt :: date
  updatedAt :: date

text \<open>The outcomes of a route other than success: the HTTP status 400 of the request
  validator, 404, 401, and the 500 of the \<open>catch\<close> block (a failed \<open>save\<close>).\<close>

datatype error = ValidationFailure | NotFound | Unauthorized | ServerError

section \<open>JavaScript numbers and strings\<close>

text \<open>
  \<open>+\<close> and \<open>-\<close> on Numbers give the binary64 value nearest to the exact result, ties to
  the even significand. \<open>ulp x\<close> is the spacing of the binary64 values around \<open>x\<close>: a
  power of two between \<open>2^-1074\<close> (the subnormal range) and \<open>2^971\<close>, such that
  \<open>x / ulp x\<close> has magnitude below \<open>2^53\<close>. A result of magnitude \<open>2^1024\<close> or more is where
  JavaScript yields \<open>Infinity\<close>; such values are not Numbers of this model, and
  \<open>finite64\<close> says that a value is below that bound.
\<close>

definition rne :: "real \<Rightarrow> int" where
  "rne q = (let f = \<lfloor>q\<rfloor>; d = q - of_int f
            in if d < 1 / 2 then f else if 1 / 2 < d then f + 1
               else if even f then f else f + 1)"

fun grow :: "nat \<Rightarrow> real \<Rightarrow> real \<Rightarrow> real" where
  "grow 0 u x = u"
| "grow (Suc k) u x = (if \<bar>x\<bar> < 2 ^ 53 * u then u else grow k (2 * u) x)"

fun shrink :: "nat \<Rightarrow> real \<Rightarrow> real \<Rightarrow> real" where
  "shrink 0 u x = u"
| "shrink (Suc k) u x = (if 2 ^ 52 * u \<le> \<bar>x\<bar> then u else shrink k (u / 2) x)"

definition ulp :: "real \<Rightarrow> real" where
  "ulp x = (if 2 ^ 53 \<le> \<bar>x\<bar> then grow 971 1 x else shrink 1074 1 x)"

definition round64 :: "real \<Rightarrow> real" where
  "round64 x = (if x = 0 then 0 else of_int (rne (x / ulp x)) * ulp x)"

definition js_add :: "real \<Rightarrow> real \<Rightarrow> real" where
  "js_add a b = round64 (a + b)"

definition js_sub :: "real \<Rightarrow> real \<Rightarrow> real" where
  "js_sub a b = round64 (a - b)"

definition finite64 :: "real \<Rightarrow> bool" where
  "finite64 x \<longleftrightarrow> \<bar>x\<bar> < 2 ^ 1024"

text \<open>A real is a binary64 value when rounding leaves it as it is; every binary64 value
  is a multiple of \<open>2^-1074\<close>.\<close>

definition binary64 :: "real \<Rightarrow> bool" where
  "binary64 x \<longleftrightarrow> round64 x = x"

definition on_grid :: "real \<Rightarrow> bool" where
  "on_grid x \<longleftrightarrow> x * 2 ^ 1074 \<in> \<int>"

text \<open>\<open>String.prototype.trim\<close>: the white space and line terminators among the code
  points below 256 are removed from both ends.\<close>

definition is_space :: "char \<Rightarrow> bool" where
  "is_space c \<longleftrightarrow> (of_char c :: nat) \<in> set [9, 10, 11, 12, 13, 32, 160]"

definition js_trim :: "string \<Rightarrow> string" where
  "js_trim s = rev (dropWhile is_space (rev (dropWhile is_space s)))"

section \<open>The schema: validators and the pre-save hook\<close>

definition status_enum :: "string list" where
  "status_enum = [''pending'', ''active'', ''completed'', ''overdue'', ''defaulted'']"

text \<open>The validators of TransactionSchema that can fail on a document of this type:
  \<open>borrower\<close> required (an empty string is missing), \<open>amount\<close> min 1,
  \<open>interestRate\<close> min 0, \<open>status\<close> in the enum. No validator constrains
  \<open>payments[].amount\<close> beyond its presence.\<close>

definition validate :: "transaction \<Rightarrow> bool" where
  "validate t \<longleftrightarrow>
     borrower t \<noteq> [] \<and> 1 \<le> amount t \<and> 0 \<le> interestRate t \<and> status t \<in> set status_enum"

text \<open>\<open>TransactionSchema.pre('save')\<close>. The flag is \<open>this.isModified('payments')\<close>,
  \<open>now\<close> is \<open>new Date()\<close>, and \<open>reduce\<close> is a left fold from 0 with the Number
  addition; the comparisons of Numbers are exact.\<close>

definition pre_save :: "date \<Rightarrow> bool \<Rightarrow> transaction \<Rightarrow> transaction" where
  "pre_save now modifiedPayments this =
     (if modifiedPayments then
        let t1 = this\<lparr>totalPaid := foldl (\<lambda>sum p. js_add sum (p_amount p)) 0 (payments this)\<rparr>;
            t2 = t1\<lparr>remainingAmount := js_sub (amount t1) (totalPaid t1)\<rparr>
        in if remainingAmount t2 \<le> 0 then t2\<lparr>status := ''completed''\<rparr>
           else if dueDate t2 < now \<and> status t2 \<noteq> ''completed'' then t2\<lparr>status := ''overdue''\<rparr>
           else t2
      else this)"

section \<open>The store\<close>

text \<open>The collection is the list of its documents. \<open>findById\<close> returns the first
  document with the id; writing a document back replaces the one with its id.\<close>

definition findById :: "objectId \<Rightarrow> transaction list \<Rightarrow> transaction option" where
  "findById i txs = List.find (\<lambda>t. tid t = i) txs"

text \<open>\<open>User.findOne({ username: name })\<close>. The filter is cast through the User schema,
  whose \<open>username\<close> has \<open>trim: true\<close>: the query is for the trimmed name, and the
  result is the first account whose username equals it.\<close>

definition findOne_username :: "string \<Rightarrow> user list \<Rightarrow> user option" where
  "findOne_username name users = List.find (\<lambda>u. username u = js_trim name) users"

definition replaceById :: "transaction \<Rightarrow> transaction list \<Rightarrow> transaction list" where
  "replaceById d txs = map (\<lambda>x. if tid x = tid d then d else x) txs"

definition findByIdAndRemove :: "objectId \<Rightarrow> transaction list \<Rightarrow> transaction list" where
  "findByIdAndRemove i txs = filter (\<lambda>x. tid x \<noteq> i) txs"

text \<open>\<open>document.save()\<close> of a loaded document: the schema validators run first and a
  failure throws (the route answers 500 and nothing is written); then the pre-save hook;
  the timestamps option sets \<open>updatedAt\<close> when a path was modified. The validators are
  run on the whole document; every route keeps the stored documents valid (the lemmas
  on \<open>valid_store\<close> below), so on a store the routes can produce this agrees with
  running them on the modified and the required paths only.\<close>

definition save :: "date \<Rightarrow> bool \<Rightarrow> transaction \<Rightarrow> transaction \<Rightarrow> transaction list
    \<Rightarrow> (error + transaction) \<times> transaction list" where
  "save now modifiedPayments loaded doc txs =
     (if \<not> validate doc then (Inl ServerError, txs)
      else let d1 = pre_save now modifiedPayments doc;
               d2 = (if d1 = loaded then d1 else d1\<lparr>updatedAt := now\<rparr>)
           in (Inr d2, replaceById d2 txs))"

text \<open>\<open>save()\<close> of a new document: \<open>payments\<close> is the schema default, not a modified
  path; both timestamps are set; the document is inserted.\<close>

definition save_new :: "date \<Rightarrow> transaction \<Rightarrow> transaction list
    \<Rightarrow> (error + transaction) \<times> transaction list" where
  "save_new now doc txs =
     (if \<not> validate doc then (Inl ServerError, txs)
      else let d1 = pre_save now False doc;
               d2 = d1\<lparr>createdAt := now, updatedAt := now\<rparr>
           in (Inr d2, txs @ [d2]))"

section \<open>Role determination\<close>

definition isLender :: "transaction \<Rightarrow> user \<Rightarrow> bool" where
  "isLender t u \<longleftrightarrow> lender t = user_id u"

definition isBorrower :: "transaction \<Rightarrow> user \<Rightarrow> bool" where
  "isBorrower t u \<longleftrightarrow>
     (case borrowerId t of None \<Rightarrow> False | Some b \<Rightarrow> b = user_id u) \<or> borrower t = username u"

section \<open>The routes (routes/transactions.js)\<close>

subsection \<open>POST /api/transactions\<close>

text \<open>A request body field that is absent is \<open>None\<close>. \<open>isNumeric\<close> passes on a
  number, \<open>not().isEmpty()\<close> on a present, non-empty value. A numeric field carries the
  Number it is parsed to, a date field the time its date string denotes.\<close>

record create_body =
  cb_borrower :: "string option"
  cb_amount :: "real option"
  cb_interestRate :: "real option"
  cb_dueDate :: "date option"
  cb_startDate :: "date option"
  cb_description :: "string option"

text \<open>\<open>oid\<close> is the \<open>_id\<close> generated for the new document. The response carries the
  saved document and \<open>borrowerExists\<close>.\<close>

definition createTransaction :: "date \<Rightarrow> objectId \<Rightarrow> user list \<Rightarrow> user \<Rightarrow> create_body
    \<Rightarrow> transaction list \<Rightarrow> (error + transaction \<times> bool) \<times> transaction list" where
  "createTransaction now oid users u body txs =
     (case (cb_borrower body, cb_amount body, cb_interestRate body,
            cb_dueDate body, cb_startDate body) of
        (Some b, Some a, Some r, Some dd, Some sd) \<Rightarrow>
          if b = [] then (Inl ValidationFailure, txs)
          else
            let borrowerUser = findOne_username b users;
                newTransaction = \<lparr>tid = oid, lender = user_id u, borrower = b,
                   borrowerId = None, amount = a, interestRate = r, startDate = sd,
                   dueDate = dd, status = ''active'', description = cb_description body,
                   payments = [], totalPaid = 0, remainingAmount = a,
                   createdAt = now, updatedAt = now\<rparr>;
                newTransaction = (case borrowerUser of
                     Some bu \<Rightarrow> newTransaction\<lparr>borrowerId := Some (user_id bu)\<rparr>
                   | None \<Rightarrow> newTransaction)
            in (case save_new now newTransaction txs of
                  (Inl e, txs') \<Rightarrow> (Inl e, txs')
                | (Inr t, txs') \<Rightarrow> (Inr (t, borrowerUser \<noteq> None), txs'))
      | _ \<Rightarrow> (Inl ValidationFailure, txs))"

subsection \<open>GET /api/transactions\<close>

text \<open>\<open>Transaction.find(q).sort({ createdAt: -1 })\<close>, and the final
  \<open>allTransactions.sort\<close> with comparator \<open>b.createdAt - a.createdAt\<close>: a stable sort,
  newest first. An entry \<open>{ ...t.toObject(), role }\<close> is the pair of the document and its role.\<close>

definition find_sorted :: "(transaction \<Rightarrow> bool) \<Rightarrow> transaction list \<Rightarrow> transaction list" where
  "find_sorted q txs = sort_key (\<lambda>t. - createdAt t) (filter q txs)"

definition listTransactions :: "user \<Rightarrow> transaction list \<Rightarrow> (transaction \<times> string) list" where
  "listTransactions u txs =
     (let lenderTransactions = find_sorted (\<lambda>t. lender t = user_id u) txs;
          borrowerTransactions = find_sorted (\<lambda>t. borrowerId t = Some (user_id u)) txs;
          borrowerByUsernameTransactions =
            find_sorted (\<lambda>t. borrower t = username u \<and> borrowerId t \<noteq> Some (user_id u)) txs;
          allTransactions =
            map (\<lambda>t. (t, ''lender'')) lenderTransactions
            @ map (\<lambda>t. (t, ''borrower'')) borrowerTransactions
            @ map (\<lambda>t. (t, ''borrower'')) borrowerByUsernameTransactions
      in sort_key (\<lambda>e. - createdAt (fst e)) allTransactions)"

subsection \<open>GET /api/transactions/:id\<close>

definition getTransaction :: "user \<Rightarrow> objectId \<Rightarrow> transaction list
    \<Rightarrow> (error + transaction \<times> string) \<times> transaction list" where
  "getTransaction u i txs =
     (case findById i txs of
        None \<Rightarrow> (Inl NotFound, txs)
      | Some t \<Rightarrow>
          if \<not> isLender t u \<and> \<not> isBorrower t u then (Inl Unauthorized, txs)
          else (Inr (t, if isLender t u then ''lender'' else ''borrower''), txs))"

subsection \<open>PUT /api/transactions/:id\<close>

record update_body =
  ub_amount :: "real option"
  ub_interestRate :: "real option"
  ub_dueDate :: "date option"
  ub_startDate :: "date option"
  ub_status :: "string option"
  ub_description :: "string option"
  ub_borrower :: "string option"

text \<open>JavaScript truthiness of a body field: an absent field, the number 0 and the empty
  string are falsy; a date arrives as a non-empty string.\<close>

definition truthy_num :: "real option \<Rightarrow> bool" where
  "truthy_num v \<longleftrightarrow> (case v of None \<Rightarrow> False | Some x \<Rightarrow> x \<noteq> 0)"

definition truthy_str :: "string option \<Rightarrow> bool" where
  "truthy_str v \<longleftrightarrow> (case v of None \<Rightarrow> False | Some s \<Rightarrow> s \<noteq> [])"

text \<open>The assignments of the handler, in its order.\<close>

definition apply_update :: "user list \<Rightarrow> update_body \<Rightarrow> transaction \<Rightarrow> transaction" where
  "apply_update users body t =
     (let t = (if truthy_num (ub_amount body) then t\<lparr>amount := the (ub_amount body)\<rparr> else t);
          t = (if truthy_num (ub_interestRate body)
               then t\<lparr>interestRate := the (ub_interestRate body)\<rparr> else t);
          t = (case ub_dueDate body of Some d \<Rightarrow> t\<lparr>dueDate := d\<rparr> | None \<Rightarrow> t);
          t = (case ub_startDate body of Some d \<Rightarrow> t\<lparr>startDate := d\<rparr> | None \<Rightarrow> t);
          t = (if truthy_str (ub_status body) then t\<lparr>status := the (ub_status body)\<rparr> else t);
          t = (if truthy_str (ub_description body)
               then t\<lparr>description := ub_description body\<rparr> else t)
      in if truthy_str (ub_borrower body) then
           let t = t\<lparr>borrower := the (ub_borrower body)\<rparr>
           in (case findOne_username (the (ub_borrower body)) users of
                 Some bu \<Rightarrow> t\<lparr>borrowerId := Some (user_id bu)\<rparr>
               | None \<Rightarrow> t\<lparr>borrowerId := None\<rparr>)
         else t)"

definition updateTransaction :: "date \<Rightarrow> user list \<Rightarrow> user \<Rightarrow> objectId \<Rightarrow> update_body
    \<Rightarrow> transaction list \<Rightarrow> (error + transaction) \<times> transaction list" where
  "updateTransaction now users u i body txs =
     (case findById i txs of
        None \<Rightarrow> (Inl NotFound, txs)
      | Some t \<Rightarrow>
          if lender t \<noteq> user_id u then (Inl Unauthorized, txs)
          else save now False t (apply_update users body t) txs)"

subsection \<open>DELETE /api/transactions/:id\<close>

definition deleteTransaction :: "user \<Rightarrow> objectId \<Rightarrow> transaction list
    \<Rightarrow> (error + unit) \<times> transaction list" where
  "deleteTransaction u i txs =
     (case findById i txs of
        None \<Rightarrow> (Inl NotFound, txs)
      | Some t \<Rightarrow>
          if lender t \<noteq> user_id u then (Inl Unauthorized, txs)
          else (Inr (), findByIdAndRemove i txs))"

subsection \<open>POST /api/transactions/:id/payment\<close>

record payment_body =
  pb_amount :: "real option"
  pb_date :: "date option"
  pb_notes :: "string option"

definition addPayment :: "date \<Rightarrow> user \<Rightarrow> objectId \<Rightarrow> payment_body
    \<Rightarrow> transaction list \<Rightarrow> (error + transaction) \<times> transaction list" where
  "addPayment now u i body txs =
     (case (pb_amount body, pb_date body) of
        (Some a, Some d) \<Rightarrow>
          (case findById i txs of
             None \<Rightarrow> (Inl NotFound, txs)
           | Some t \<Rightarrow>
               if \<not> isLender t u \<and> \<not> isBorrower t u then (Inl Unauthorized, txs)
               else save now True t
                      (t\<lparr>payments := payments t @ [\<lparr>p_amount = a, p_date = d, p_notes = pb_notes body\<rparr>]\<rparr>)
                      txs)
      | _ \<Rightarrow> (Inl ValidationFailure, txs))"

section \<open>The documents the routes write\<close>

text \<open>Names for the document a committed request stores: after a payment is pushed,
  after the assignments of an update, and at creation; and for a collection whose
  documents all pass the schema validators.\<close>

definition pushed :: "date \<Rightarrow> transaction \<Rightarrow> payment \<Rightarrow> transaction" where
  "pushed now t p = (pre_save now True (t\<lparr>payments := payments t @ [p]\<rparr>))\<lparr>updatedAt := now\<rparr>"

definition updated :: "date \<Rightarrow> user list \<Rightarrow> update_body \<Rightarrow> transaction \<Rightarrow> transaction" where
  "updated now users body t =
     (if apply_update users body t = t then t else (apply_update users body t)\<lparr>updatedAt := now\<rparr>)"

definition created :: "date \<Rightarrow> objectId \<Rightarrow> user list \<Rightarrow> user \<Rightarrow> string \<Rightarrow> real \<Rightarrow> real \<Rightarrow> date
    \<Rightarrow> date \<Rightarrow> string option \<Rightarrow> transaction" where
  "created now oid users u b a r dd sd desc =
     \<lparr>tid = oid, lender = user_id u, borrower = b,
      borrowerId = map_option user_id (findOne_username b users),
      amount = a, interestRate = r, startDate = sd, dueDate = dd, status = ''active'',
      description = desc, payments = [], totalPaid = 0, remainingAmount = a,
      createdAt = now, updatedAt = now\<rparr>"

definition valid_store :: "transaction list \<Rightarrow> bool" where
  "valid_store txs \<longleftrightarrow> (\<forall>t\<in>set txs. validate t)"

text \<open>The derivation of a document stays within the finite Numbers: the amount, every
  payment, every partial sum of the hook's \<open>reduce\<close> and the difference are below
  \<open>2^1024\<close> in magnitude, so that JavaScript computes them without \<open>Infinity\<close>.\<close>

fun sums_finite :: "real \<Rightarrow> real list \<Rightarrow> bool" where
  "sums_finite s [] = finite64 s"
| "sums_finite s (x # xs) = (finite64 s \<and> finite64 x \<and> sums_finite (js_add s x) xs)"

definition derivation_finite :: "transaction \<Rightarrow> bool" where
  "derivation_finite t \<longleftrightarrow>
     finite64 (amount t) \<and> sums_finite 0 (map p_amount (payments t))
     \<and> finite64 (js_sub (amount t) (foldl js_add 0 (map p_amount (payments t))))"

section \<open>Example data\<close>

text \<open>Three accounts; ann lends 1000 to bob at time 100, due at time 3000.\<close>

definition ex_ann :: user where "ex_ann = \<lparr>user_id = 1, username = ''ann''\<rparr>"

definition ex_bob :: user where "ex_bob = \<lparr>user_id = 2, username = ''bob''\<rparr>"

definition ex_eve :: user where "ex_eve = \<lparr>user_id = 3, username = ''eve''\<rparr>"

definition ex_users :: "user list" where "ex_users = [ex_ann, ex_bob, ex_eve]"

definition ex_create :: create_body where
  "ex_create = \<lparr>cb_borrower = Some ''bob'', cb_amount = Some 1000, cb_interestRate = Some 5,
     cb_dueDate = Some 3000, cb_startDate = Some 100, cb_description = None\<rparr>"

definition ex_create_zero :: create_body where
  "ex_create_zero = ex_create\<lparr>cb_amount := Some 0\<rparr>"

definition ex_create_nameless :: create_body where
  "ex_create_nameless = ex_create\<lparr>cb_borrower := None\<rparr>"

definition ex_loan :: transaction where
  "ex_loan = \<lparr>tid = 7, lender = 1, borrower = ''bob'', borrowerId = Some 2, amount = 1000,
     interestRate = 5, startDate = 100, dueDate = 3000, status = ''active'',
     description = None, payments = [], totalPaid = 0, remainingAmount = 1000,
     createdAt = 100, updatedAt = 100\<rparr>"

text \<open>A payment body with amount and date, and the loan after that single payment.\<close>

definition ex_pay :: "real \<Rightarrow> date \<Rightarrow> payment_body" where
  "ex_pay a d = \<lparr>pb_amount = Some a, pb_date = Some d, pb_notes = None\<rparr>"

definition ex_missing_date :: payment_body where
  "ex_missing_date = \<lparr>pb_amount = Some 100, pb_date = None, pb_notes = None\<rparr>"

definition ex_paid :: "real \<Rightarrow> date \<Rightarrow> string \<Rightarrow> transaction" where
  "ex_paid a d s = ex_loan\<lparr>status := s, payments := [\<lparr>p_amount = a, p_date = d, p_notes = None\<rparr>],
     totalPaid := a, remainingAmount := 1000 - a, updatedAt := d\<rparr>"

text \<open>Update bodies: a new amount, an explicit status, a new borrower name; and the
  documents they leave.\<close>

definition ex_raise :: update_body where
  "ex_raise = \<lparr>ub_amount = Some 2000, ub_interestRate = None, ub_dueDate = None,
     ub_startDate = None, ub_status = None, ub_description = None, ub_borrower = None\<rparr>"

definition ex_reopen :: update_body where
  "ex_reopen = \<lparr>ub_amount = None, ub_interestRate = None, ub_dueDate = None,
     ub_startDate = None, ub_status = Some ''active'', ub_description = None, ub_borrower = None\<rparr>"

definition ex_rename :: update_body where
  "ex_rename = \<lparr>ub_amount = None, ub_interestRate = None, ub_dueDate = None,
     ub_startDate = None, ub_status = None, ub_description = None, ub_borrower = Some ''zed''\<rparr>"

definition ex_raised :: transaction where
  "ex_raised = (ex_paid 400 200 ''active'')\<lparr>amount := 2000, updatedAt := 300\<rparr>"

definition ex_reopened :: transaction where
  "ex_reopened = (ex_paid 1000 200 ''completed'')\<lparr>status := ''active'', updatedAt := 300\<rparr>"

definition ex_renamed :: transaction where
  "ex_renamed = ex_loan\<lparr>borrower := ''zed'', borrowerId := None, updatedAt := 300\<rparr>"

text \<open>A second loan, from eve to ann, and a loan ann made out to her own username.\<close>

definition ex_other :: transaction where
  "ex_other = ex_loan\<lparr>tid := 8, lender := 3, borrower := ''ann'', borrowerId := Some 1,
     createdAt := 150\<rparr>"

definition ex_self :: transaction where
  "ex_self = ex_loan\<lparr>tid := 9, borrower := ''ann'', borrowerId := None, createdAt := 120\<rparr>"

definition ex_store :: "transaction list" where
  "ex_store = [ex_loan, ex_other, ex_self]"

text \<open>A create request naming the borrower with surrounding spaces, and the loan it stores.\<close>

definition ex_create_spaced :: create_body where
  "ex_create_spaced = ex_create\<lparr>cb_borrower := Some '' bob ''\<rparr>"

definition ex_loan_spaced :: transaction where
  "ex_loan_spaced = ex_loan\<lparr>borrower := '' bob ''\<rparr>"

text \<open>A loan of \<open>2^53 + 2\<close>, and that loan after payments of which the first is \<open>2^53\<close>
  and the others are 1.\<close>

definition ex_create_big :: create_body where
  "ex_create_big = ex_create\<lparr>cb_amount := Some 9007199254740994\<rparr>"

definition ex_big0 :: transaction where
  "ex_big0 = ex_loan\<lparr>amount := 9007199254740994, remainingAmount := 9007199254740994\<rparr>"

definition ex_p :: "real \<Rightarrow> date \<Rightarrow> payment" where
  "ex_p a d = \<lparr>p_amount = a, p_date = d, p_notes = None\<rparr>"

definition ex_big :: "payment list \<Rightarrow> date \<Rightarrow> transaction" where
  "ex_big ps d = ex_big0\<lparr>payments := ps, totalPaid := 9007199254740992, remainingAmount := 2,
     updatedAt := d\<rparr>"

section \<open>Properties of the schema, the store and the routes\<close>

subsection \<open>Numbers and strings\<close>

lemma rne_of_int: "rne (of_int m) = m"
  by (simp add: rne_def)

lemma rne_nonpos: "q \<le> 0 \<Longrightarrow> rne q \<le> 0"
  unfolding rne_def Let_def
  by (auto simp: floor_le_zero)

lemma rne_nonneg: "0 \<le> q \<Longrightarrow> 0 \<le> rne q"
  unfolding rne_def Let_def
  by auto

lemma grow_pos: "0 < u \<Longrightarrow> 0 < grow k u x"
  by (induction k u x rule: grow.induct) auto

lemma shrink_pos: "0 < u \<Longrightarrow> 0 < shrink k u x"
  by (induction k u x rule: shrink.induct) auto

lemma ulp_pos: "0 < ulp x"
  by (simp add: ulp_def grow_pos shrink_pos)

lemma round64_nonpos: "x \<le> 0 \<Longrightarrow> round64 x \<le> 0"
  using ulp_pos [of x]
  by (auto simp: round64_def mult_le_0_iff intro!: rne_nonpos divide_nonpos_pos)

lemma round64_nonneg: "0 \<le> x \<Longrightarrow> 0 \<le> round64 x"
  using ulp_pos [of x]
  by (auto simp: round64_def intro!: mult_nonneg_nonneg rne_nonneg)

lemma shrink_pow: "\<exists>j. shrink k u x = u / 2 ^ j"
proof (induction k u x rule: shrink.induct)
  case (1 u x)
  show ?case by (rule exI [of _ 0]) simp
next
  case (2 k u x)
  show ?case
  proof (cases "2 ^ 52 * u \<le> \<bar>x\<bar>")
    case True
    then show ?thesis by (intro exI [of _ 0]) simp
  next
    case False
    with 2 obtain j where "shrink k (u / 2) x = u / 2 / 2 ^ j" by auto
    with False show ?thesis by (intro exI [of _ "Suc j"]) simp
  qed
qed

lemma round64_int:
  assumes "x \<in> \<int>" "\<bar>x\<bar> < 2 ^ 53"
  shows "round64 x = x"
proof (cases "x = 0")
  case True
  then show ?thesis by (simp add: round64_def)
next
  case False
  obtain m :: int where m: "x = of_int m"
    using assms(1) by (auto elim: Ints_cases)
  obtain j where j: "ulp x = 1 / 2 ^ j"
    using shrink_pow [of 1074 1 x] assms(2) by (auto simp: ulp_def)
  have "x / ulp x = of_int (m * 2 ^ j)"
    unfolding j by (simp add: m)
  then have "rne (x / ulp x) = m * 2 ^ j"
    by (simp only: rne_of_int)
  then show ?thesis
    using False unfolding round64_def by (simp add: j) (simp add: m)
qed

lemma js_add_int: "a \<in> \<int> \<Longrightarrow> b \<in> \<int> \<Longrightarrow> \<bar>a + b\<bar> < 2 ^ 53 \<Longrightarrow> js_add a b = a + b"
  by (simp add: js_add_def round64_int)

lemma js_sub_int: "a \<in> \<int> \<Longrightarrow> b \<in> \<int> \<Longrightarrow> \<bar>a - b\<bar> < 2 ^ 53 \<Longrightarrow> js_sub a b = a - b"
  by (simp add: js_sub_def round64_int)

lemma grow_numeral:
  "grow (numeral n) u x = (if \<bar>x\<bar> < 2 ^ 53 * u then u else grow (pred_numeral n) (2 * u) x)"
  by (simp add: numeral_eq_Suc)

lemma round64_2_53: "round64 9007199254740992 = 9007199254740992"
  by (simp add: round64_def ulp_def grow_numeral rne_def)

lemma round64_2_53_1: "round64 9007199254740993 = 9007199254740992"
  by (simp add: round64_def ulp_def grow_numeral rne_def)

lemma rne_below: "q < - (1 / 2) \<Longrightarrow> rne q \<le> - 1"
  unfolding rne_def Let_def
  by (auto simp: not_less) linarith+

lemma shrink_grid: "\<exists>j\<le>k. shrink k u x = u / 2 ^ j"
proof (induction k u x rule: shrink.induct)
  case (1 u x)
  show ?case by simp
next
  case (2 k u x)
  show ?case
  proof (cases "2 ^ 52 * u \<le> \<bar>x\<bar>")
    case True
    then show ?thesis by (intro exI [of _ 0]) simp
  next
    case False
    with 2 obtain j where "j \<le> k" "shrink k (u / 2) x = u / 2 / 2 ^ j" by auto
    with False show ?thesis by (intro exI [of _ "Suc j"]) simp
  qed
qed

lemma shrink_lower: "2 ^ 52 * shrink k u x \<le> \<bar>x\<bar> \<or> shrink k u x = u / 2 ^ k"
  by (induction k u x rule: shrink.induct) auto

lemma grow_grid: "\<exists>j. grow k u x = u * 2 ^ j"
proof (induction k u x rule: grow.induct)
  case (1 u x)
  show ?case by (rule exI [of _ 0]) simp
next
  case (2 k u x)
  show ?case
  proof (cases "\<bar>x\<bar> < 2 ^ 53 * u")
    case True
    then show ?thesis by (intro exI [of _ 0]) simp
  next
    case False
    with 2 obtain j where "grow k (2 * u) x = 2 * u * 2 ^ j" by auto
    with False show ?thesis by (intro exI [of _ "Suc j"]) simp
  qed
qed

lemma grow_lower: "2 ^ 52 * u \<le> \<bar>x\<bar> \<Longrightarrow> 2 ^ 52 * grow k u x \<le> \<bar>x\<bar>"
  by (induction k u x rule: grow.induct) auto

lemma ulp_grid: "on_grid (ulp x)"
proof (cases "2 ^ 53 \<le> \<bar>x\<bar>")
  case True
  obtain j where "grow 971 1 x = 1 * 2 ^ j"
    using grow_grid by blast
  with True have "ulp x * 2 ^ 1074 = of_int (2 ^ (j + 1074))"
    by (simp add: ulp_def power_add del: power_numeral)
  then show ?thesis
    unfolding on_grid_def by (simp only: Ints_of_int)
next
  case False
  obtain j where j: "j \<le> 1074" "shrink 1074 1 x = 1 / 2 ^ j"
    using shrink_grid by blast
  have "(2::real) ^ 1074 = 2 ^ (1074 - j) * 2 ^ j"
    using j(1) by (simp del: power_numeral flip: power_add)
  with False j(2) have "ulp x * 2 ^ 1074 = of_int (2 ^ (1074 - j))"
    by (simp add: ulp_def del: power_numeral)
  then show ?thesis
    unfolding on_grid_def by (simp only: Ints_of_int)
qed

lemma ulp_lower: "2 ^ 52 * ulp x \<le> \<bar>x\<bar> \<or> ulp x = 1 / 2 ^ 1074"
proof (cases "2 ^ 53 \<le> \<bar>x\<bar>")
  case True
  then have "2 ^ 52 * (1::real) \<le> \<bar>x\<bar>" by simp
  then have "2 ^ 52 * grow 971 1 x \<le> \<bar>x\<bar>" by (rule grow_lower)
  with True show ?thesis by (simp add: ulp_def del: power_numeral)
next
  case False
  then show ?thesis
    using shrink_lower [of 1074 1 x] by (simp add: ulp_def del: power_numeral)
qed

lemma round64_grid: "on_grid (round64 x)"
proof -
  have "ulp x * 2 ^ 1074 \<in> \<int>"
    using ulp_grid [of x] unfolding on_grid_def .
  then have "of_int (rne (x / ulp x)) * (ulp x * 2 ^ 1074) \<in> \<int>"
    by (rule Ints_mult [OF Ints_of_int])
  then show ?thesis
    unfolding on_grid_def round64_def by (simp add: mult.assoc del: power_numeral)
qed

lemma binary64_grid: "binary64 x \<Longrightarrow> on_grid x"
  using round64_grid [of x] by (simp add: binary64_def)

lemma round64_neg:
  assumes "on_grid y" "y < 0"
  shows "round64 y < 0"
proof -
  have u: "0 < ulp y" by (rule ulp_pos)
  have "y / ulp y < - (1 / 2)"
    using ulp_lower [of y]
  proof
    assume "2 ^ 52 * ulp y \<le> \<bar>y\<bar>"
    with assms(2) have "2 ^ 52 * ulp y \<le> - y" by simp
    then have "y / ulp y \<le> - (2 ^ 52)"
      using u by (simp add: field_simps del: power_numeral)
    then show ?thesis by simp
  next
    assume e: "ulp y = 1 / 2 ^ 1074"
    obtain m :: int where m: "y * 2 ^ 1074 = of_int m"
      using assms(1) unfolding on_grid_def by (auto elim: Ints_cases)
    have "y * 2 ^ 1074 < 0"
      using assms(2) by (simp add: mult_less_0_iff del: power_numeral)
    then have "m < 0" unfolding m by simp
    then have "m \<le> - 1" by simp
    then have "(of_int m :: real) \<le> - 1" by (metis of_int_le_iff of_int_minus of_int_1)
    then have "y * 2 ^ 1074 \<le> - 1" unfolding m .
    moreover have "y / ulp y = y * 2 ^ 1074"
      unfolding e by (simp del: power_numeral)
    ultimately show ?thesis by simp
  qed
  then have "rne (y / ulp y) \<le> - 1" by (rule rne_below)
  then have "(of_int (rne (y / ulp y)) :: real) \<le> - 1"
    by (metis of_int_le_iff of_int_minus of_int_1)
  then have "of_int (rne (y / ulp y)) * ulp y \<le> - 1 * ulp y"
    using u by (intro mult_right_mono) simp_all
  with u assms(2) show ?thesis
    by (simp add: round64_def)
qed

lemma js_sub_neg:
  assumes "binary64 a" "on_grid b" "a < b"
  shows "js_sub a b < 0"
proof -
  have "a * 2 ^ 1074 - b * 2 ^ 1074 \<in> \<int>"
    using binary64_grid [OF assms(1)] assms(2) unfolding on_grid_def by (rule Ints_diff)
  then have "on_grid (a - b)"
    unfolding on_grid_def by (simp only: left_diff_distrib)
  then show ?thesis
    using assms(3) by (simp add: js_sub_def round64_neg)
qed

lemma js_add_grid: "on_grid (js_add a b)"
  by (simp add: js_add_def round64_grid)

lemma js_sub_nonpos: "a \<le> b \<Longrightarrow> js_sub a b \<le> 0"
  by (simp add: js_sub_def round64_nonpos)

lemma binary64_int: "x \<in> \<int> \<Longrightarrow> \<bar>x\<bar> < 2 ^ 53 \<Longrightarrow> binary64 x"
  by (simp add: binary64_def round64_int)

lemma shrink_numeral:
  "shrink (numeral n) u x = (if 2 ^ 52 * u \<le> \<bar>x\<bar> then u else shrink (pred_numeral n) (u / 2) x)"
  by (simp add: numeral_eq_Suc)

subsection \<open>The hook and the routes\<close>

lemma foldl_amounts:
  "foldl (\<lambda>sum p. js_add sum (p_amount p)) s ps = foldl js_add s (map p_amount ps)"
  by (induction ps arbitrary: s) simp_all

lemma pre_save_frame:
  "tid (pre_save now m t) = tid t" "lender (pre_save now m t) = lender t"
  "borrower (pre_save now m t) = borrower t" "borrowerId (pre_save now m t) = borrowerId t"
  "amount (pre_save now m t) = amount t" "interestRate (pre_save now m t) = interestRate t"
  "startDate (pre_save now m t) = startDate t" "dueDate (pre_save now m t) = dueDate t"
  "description (pre_save now m t) = description t" "payments (pre_save now m t) = payments t"
  "createdAt (pre_save now m t) = createdAt t" "updatedAt (pre_save now m t) = updatedAt t"
  by (simp_all add: pre_save_def Let_def)

lemma pre_save_False: "pre_save now False t = t"
  by (simp add: pre_save_def)

lemma pre_save_totalPaid:
  "totalPaid (pre_save now True t) = foldl js_add 0 (map p_amount (payments t))"
  by (simp add: pre_save_def Let_def foldl_amounts)

lemma pre_save_remainingAmount:
  "remainingAmount (pre_save now True t)
     = js_sub (amount t) (foldl js_add 0 (map p_amount (payments t)))"
  by (simp add: pre_save_def Let_def foldl_amounts)

lemma pre_save_status:
  "status (pre_save now True t) =
     (if js_sub (amount t) (foldl js_add 0 (map p_amount (payments t))) \<le> 0 then ''completed''
      else if dueDate t < now \<and> status t \<noteq> ''completed'' then ''overdue''
      else status t)"
  by (simp add: pre_save_def Let_def foldl_amounts)

lemma validate_pre_save: "validate t \<Longrightarrow> validate (pre_save now m t)"
  by (simp add: validate_def pre_save_frame pre_save_def Let_def status_enum_def)

lemma validate_payments_update: "validate (t\<lparr>payments := ps\<rparr>) = validate t"
  by (simp add: validate_def)

lemma validate_updatedAt_update: "validate (t\<lparr>updatedAt := x\<rparr>) = validate t"
  by (simp add: validate_def)

lemma save_pushed:
  "save now True t (t\<lparr>payments := payments t @ [p]\<rparr>) txs =
     (if validate t then (Inr (pushed now t p), replaceById (pushed now t p) txs)
      else (Inl ServerError, txs))"
proof -
  have "payments (pre_save now True (t\<lparr>payments := payments t @ [p]\<rparr>)) \<noteq> payments t"
    by (simp add: pre_save_frame)
  then have "pre_save now True (t\<lparr>payments := payments t @ [p]\<rparr>) \<noteq> t"
    by metis
  then show ?thesis
    by (simp add: save_def Let_def validate_payments_update pushed_def)
qed

lemma addPayment_cases:
  "addPayment now u i body txs =
     (case pb_amount body of None \<Rightarrow> (Inl ValidationFailure, txs)
      | Some a \<Rightarrow> (case pb_date body of None \<Rightarrow> (Inl ValidationFailure, txs)
        | Some d \<Rightarrow> (case findById i txs of None \<Rightarrow> (Inl NotFound, txs)
          | Some t \<Rightarrow>
              if \<not> isLender t u \<and> \<not> isBorrower t u then (Inl Unauthorized, txs)
              else if \<not> validate t then (Inl ServerError, txs)
              else (Inr (pushed now t \<lparr>p_amount = a, p_date = d, p_notes = pb_notes body\<rparr>),
                    replaceById (pushed now t \<lparr>p_amount = a, p_date = d, p_notes = pb_notes body\<rparr>) txs))))"
  by (simp add: addPayment_def save_pushed split: option.splits)

lemma addPayment_Inr:
  assumes "addPayment now u i body txs = (Inr t', txs')"
  obtains t a d where "pb_amount body = Some a" "pb_date body = Some d"
    "findById i txs = Some t" "isLender t u \<or> isBorrower t u" "validate t"
    "t' = pushed now t \<lparr>p_amount = a, p_date = d, p_notes = pb_notes body\<rparr>"
    "txs' = replaceById t' txs"
  using assms unfolding addPayment_cases
  by (auto split: option.splits if_splits)

lemma pushed_frame:
  "tid (pushed now t p) = tid t" "lender (pushed now t p) = lender t"
  "borrower (pushed now t p) = borrower t" "borrowerId (pushed now t p) = borrowerId t"
  "amount (pushed now t p) = amount t" "interestRate (pushed now t p) = interestRate t"
  "startDate (pushed now t p) = startDate t" "dueDate (pushed now t p) = dueDate t"
  "description (pushed now t p) = description t" "createdAt (pushed now t p) = createdAt t"
  "payments (pushed now t p) = payments t @ [p]" "updatedAt (pushed now t p) = now"
  by (simp_all add: pushed_def pre_save_frame)

lemma pushed_totalPaid:
  "totalPaid (pushed now t p)
     = js_add (foldl js_add 0 (map p_amount (payments t))) (p_amount p)"
  by (simp add: pushed_def pre_save_totalPaid)

lemma pushed_remainingAmount:
  "remainingAmount (pushed now t p) = js_sub (amount t) (totalPaid (pushed now t p))"
  by (simp add: pushed_def pre_save_remainingAmount pre_save_totalPaid)

lemma pushed_status:
  "status (pushed now t p) =
     (if remainingAmount (pushed now t p) \<le> 0 then ''completed''
      else if dueDate t < now \<and> status t \<noteq> ''completed'' then ''overdue''
      else status t)"
  by (simp add: pushed_remainingAmount pushed_totalPaid) (simp add: pushed_def pre_save_status)

lemma findById_Some: "findById i txs = Some t \<Longrightarrow> t \<in> set txs \<and> tid t = i"
  by (auto simp: findById_def find_Some_iff)

lemma findById_replaceById:
  "findById i txs = Some t \<Longrightarrow> tid d = i \<Longrightarrow> findById i (replaceById d txs) = Some d"
  by (induction txs) (auto simp: findById_def replaceById_def split: if_splits)

lemma replaceById_others:
  "length (replaceById d txs) = length txs"
  "k < length txs \<Longrightarrow> tid (txs ! k) \<noteq> tid d \<Longrightarrow> replaceById d txs ! k = txs ! k"
  "k < length txs \<Longrightarrow> tid (txs ! k) = tid d \<Longrightarrow> replaceById d txs ! k = d"
  by (simp_all add: replaceById_def)

lemma apply_update_frame:
  "tid (apply_update users body t) = tid t" "lender (apply_update users body t) = lender t"
  "payments (apply_update users body t) = payments t"
  "totalPaid (apply_update users body t) = totalPaid t"
  "remainingAmount (apply_update users body t) = remainingAmount t"
  "createdAt (apply_update users body t) = createdAt t"
  by (simp_all add: apply_update_def Let_def split: option.splits)

lemma apply_update_amount:
  "amount (apply_update users body t) =
     (if truthy_num (ub_amount body) then the (ub_amount body) else amount t)"
  by (simp add: apply_update_def Let_def split: option.splits)

lemma apply_update_status:
  "status (apply_update users body t) =
     (if truthy_str (ub_status body) then the (ub_status body) else status t)"
  by (simp add: apply_update_def Let_def split: option.splits)

lemma apply_update_borrower:
  "borrower (apply_update users body t) =
     (if truthy_str (ub_borrower body) then the (ub_borrower body) else borrower t)"
  "borrowerId (apply_update users body t) =
     (if truthy_str (ub_borrower body)
      then map_option user_id (findOne_username (the (ub_borrower body)) users)
      else borrowerId t)"
  by (simp_all add: apply_update_def Let_def split: option.splits)

lemma updateTransaction_cases:
  "updateTransaction now users u i body txs =
     (case findById i txs of None \<Rightarrow> (Inl NotFound, txs)
      | Some t \<Rightarrow>
          if lender t \<noteq> user_id u then (Inl Unauthorized, txs)
          else if \<not> validate (apply_update users body t) then (Inl ServerError, txs)
          else (Inr (updated now users body t), replaceById (updated now users body t) txs))"
  by (simp add: updateTransaction_def save_def pre_save_False updated_def Let_def split: option.splits)

lemma updated_fields:
  "tid (updated now users body t) = tid t"
  "payments (updated now users body t) = payments t"
  "totalPaid (updated now users body t) = totalPaid t"
  "remainingAmount (updated now users body t) = remainingAmount t"
  "amount (updated now users body t) = amount (apply_update users body t)"
  "status (updated now users body t) = status (apply_update users body t)"
  "borrower (updated now users body t) = borrower (apply_update users body t)"
  "borrowerId (updated now users body t) = borrowerId (apply_update users body t)"
  by (simp_all add: updated_def apply_update_frame)

lemma updateTransaction_Inr:
  assumes "updateTransaction now users u i body txs = (Inr t', txs')"
  obtains t where "findById i txs = Some t" "lender t = user_id u"
    "validate (apply_update users body t)" "t' = updated now users body t"
    "txs' = replaceById t' txs"
  using assms unfolding updateTransaction_cases
  by (auto split: option.splits if_splits)


lemma save_new_cases:
  "save_new now doc txs =
     (if validate doc then (Inr (doc\<lparr>createdAt := now, updatedAt := now\<rparr>),
                            txs @ [doc\<lparr>createdAt := now, updatedAt := now\<rparr>])
      else (Inl ServerError, txs))"
  by (simp add: save_new_def pre_save_False Let_def)

lemma createTransaction_cases:
  "createTransaction now oid users u body txs =
     (case cb_borrower body of None \<Rightarrow> (Inl ValidationFailure, txs) | Some b \<Rightarrow>
     (case cb_amount body of None \<Rightarrow> (Inl ValidationFailure, txs) | Some a \<Rightarrow>
     (case cb_interestRate body of None \<Rightarrow> (Inl ValidationFailure, txs) | Some r \<Rightarrow>
     (case cb_dueDate body of None \<Rightarrow> (Inl ValidationFailure, txs) | Some dd \<Rightarrow>
     (case cb_startDate body of None \<Rightarrow> (Inl ValidationFailure, txs) | Some sd \<Rightarrow>
        if b = [] then (Inl ValidationFailure, txs)
        else if \<not> (1 \<le> a \<and> 0 \<le> r) then (Inl ServerError, txs)
        else (Inr (created now oid users u b a r dd sd (cb_description body),
                   findOne_username b users \<noteq> None),
              txs @ [created now oid users u b a r dd sd (cb_description body)]))))))"
  by (auto simp: createTransaction_def save_new_cases created_def validate_def status_enum_def
        Let_def split: option.splits)

lemma createTransaction_Inr:
  assumes "createTransaction now oid users u body txs = (Inr (t, ex), txs')"
  obtains b a r dd sd where "cb_borrower body = Some b" "cb_amount body = Some a"
    "cb_interestRate body = Some r" "cb_dueDate body = Some dd" "cb_startDate body = Some sd"
    "b \<noteq> []" "1 \<le> a" "0 \<le> r"
    "t = created now oid users u b a r dd sd (cb_description body)"
    "txs' = txs @ [t]" "ex = (findOne_username b users \<noteq> None)"
  using assms unfolding createTransaction_cases
  by (auto split: option.splits if_splits)

lemma pushed_eq:
  "pushed now t p = t\<lparr>payments := payments t @ [p], totalPaid := totalPaid (pushed now t p),
     remainingAmount := remainingAmount (pushed now t p), status := status (pushed now t p),
     updatedAt := now\<rparr>"
  by (simp add: pushed_def pre_save_def Let_def)

lemma validate_pushed: "validate t \<Longrightarrow> validate (pushed now t p)"
  by (simp add: pushed_def validate_updatedAt_update validate_pre_save validate_payments_update)

lemma validate_updated:
  "validate (apply_update users body t) \<Longrightarrow> validate (updated now users body t)"
  by (auto simp: updated_def validate_updatedAt_update)

lemma valid_store_replaceById:
  "valid_store txs \<Longrightarrow> validate d \<Longrightarrow> valid_store (replaceById d txs)"
  by (auto simp: valid_store_def replaceById_def)

lemma valid_store_addPayment:
  "valid_store txs \<Longrightarrow> valid_store (snd (addPayment now u i body txs))"
  by (auto simp: addPayment_cases valid_store_replaceById validate_pushed
        split: option.splits)

lemma valid_store_updateTransaction:
  "valid_store txs \<Longrightarrow> valid_store (snd (updateTransaction now users u i body txs))"
  by (auto simp: updateTransaction_cases valid_store_replaceById validate_updated
        split: option.splits dest: findById_Some)

lemma valid_store_createTransaction:
  "valid_store txs \<Longrightarrow> valid_store (snd (createTransaction now oid users u body txs))"
  by (auto simp: createTransaction_cases valid_store_def created_def validate_def status_enum_def
        split: option.splits)

lemma valid_store_deleteTransaction:
  "valid_store txs \<Longrightarrow> valid_store (snd (deleteTransaction u i txs))"
  by (auto simp: deleteTransaction_def valid_store_def findByIdAndRemove_def split: option.splits)

lemma findOne_username_None:
  "(findOne_username b users = None) = (\<forall>bu\<in>set users. username bu \<noteq> js_trim b)"
  by (auto simp: findOne_username_def find_None_iff)

lemma findOne_username_distinct:
  "distinct (map username users) \<Longrightarrow> bu \<in> set users \<Longrightarrow> username bu = js_trim b \<Longrightarrow>
     findOne_username b users = Some bu"
  by (induction users) (force simp: findOne_username_def)+

lemma resolved_borrowerId:
  assumes "bid = map_option user_id (findOne_username b users)"
  shows "((\<forall>bu\<in>set users. username bu \<noteq> js_trim b) \<longrightarrow> bid = None)
     \<and> (\<forall>bu\<in>set users. distinct (map username users) \<and> username bu = js_trim b
           \<longrightarrow> bid = Some (user_id bu))"
  using assms findOne_username_None [of b users]
  by (auto simp: findOne_username_distinct)

lemma count_list_sort_key: "count_list (sort_key f xs) x = count_list xs x"
  by (metis count_mset mset_sort)

lemma count_list_tagged:
  "count_list (map (\<lambda>t. (t, r)) xs) (t, r') = (if r = r' then count_list xs t else 0)"
  by (induction xs) auto

lemma count_list_filter_distinct:
  "distinct xs \<Longrightarrow> count_list (filter P xs) t = (if t \<in> set xs \<and> P t then 1 else 0)"
  by (induction xs) auto

lemma count_list_find_sorted:
  "distinct xs \<Longrightarrow> count_list (find_sorted q xs) t = (if t \<in> set xs \<and> q t then 1 else 0)"
  by (simp add: find_sorted_def count_list_sort_key count_list_filter_distinct)

lemma isBorrower_iff:
  "isBorrower t u \<longleftrightarrow> borrowerId t = Some (user_id u) \<or> borrower t = username u"
  by (auto simp: isBorrower_def split: option.splits)

lemma listTransactions_count_lender:
  "distinct txs \<Longrightarrow> count_list (listTransactions u txs) (t, ''lender'')
     = (if t \<in> set txs \<and> isLender t u then 1 else 0)"
  by (simp add: listTransactions_def Let_def count_list_sort_key count_list_tagged
        count_list_find_sorted isLender_def)

lemma listTransactions_count_borrower:
  "distinct txs \<Longrightarrow> count_list (listTransactions u txs) (t, ''borrower'')
     = (if t \<in> set txs \<and> isBorrower t u then 1 else 0)"
  by (auto simp: listTransactions_def Let_def count_list_sort_key count_list_tagged
        count_list_find_sorted isBorrower_iff)

lemma length_filter_fst_tagged:
  "length (filter ((\<lambda>e. fst e = t) \<circ> (\<lambda>x. (x, r))) xs) = count_list xs t"
  by (induction xs) auto

lemma listTransactions_entries:
  "distinct txs \<Longrightarrow> length (filter (\<lambda>e. fst e = t) (listTransactions u txs))
     = (if t \<in> set txs then (if isLender t u then 1 else 0) + (if isBorrower t u then 1 else 0)
        else 0)"
proof -
  assume d: "distinct txs"
  have "length (filter (\<lambda>e. fst e = t) (listTransactions u txs))
      = count_list (find_sorted (\<lambda>t. lender t = user_id u) txs) t
        + count_list (find_sorted (\<lambda>t. borrowerId t = Some (user_id u)) txs) t
        + count_list (find_sorted (\<lambda>t. borrower t = username u
            \<and> borrowerId t \<noteq> Some (user_id u)) txs) t"
    by (simp add: listTransactions_def Let_def filter_sort length_filter_fst_tagged)
  then show ?thesis
    using d by (auto simp: count_list_find_sorted isLender_def isBorrower_iff)
qed

lemma listTransactions_roles:
  "e \<in> set (listTransactions u txs) \<Longrightarrow> snd e = ''lender'' \<or> snd e = ''borrower''"
  by (auto simp: listTransactions_def Let_def)

lemma listTransactions_sorted:
  "sorted_wrt (\<lambda>a b. createdAt (fst b) \<le> createdAt (fst a)) (listTransactions u txs)"
proof -
  have "sorted (map (\<lambda>e. - createdAt (fst e)) (listTransactions u txs))"
    by (simp add: listTransactions_def Let_def)
  then show ?thesis
    by (simp add: sorted_map)
qed

subsection \<open>The example requests, evaluated\<close>

lemma ex_created:
  "createTransaction 100 7 ex_users ex_ann ex_create [] = (Inr (ex_loan, True), [ex_loan])"
  by (simp add: createTransaction_cases created_def ex_create_def ex_loan_def ex_users_def
        ex_ann_def ex_bob_def ex_eve_def findOne_username_def js_trim_def is_space_def)

lemma ex_payment:
  "addPayment 200 ex_bob 7 (ex_pay 400 200) [ex_loan] =
     (Inr (ex_paid 400 200 ''active''), [ex_paid 400 200 ''active''])"
  "addPayment 200 ex_bob 7 (ex_pay 1000 200) [ex_loan] =
     (Inr (ex_paid 1000 200 ''completed''), [ex_paid 1000 200 ''completed''])"
  "addPayment 200 ex_bob 7 (ex_pay (- 50) 200) [ex_loan] =
     (Inr (ex_paid (- 50) 200 ''active''), [ex_paid (- 50) 200 ''active''])"
  "addPayment 5000 ex_bob 7 (ex_pay 400 5000) [ex_loan] =
     (Inr (ex_paid 400 5000 ''overdue''), [ex_paid 400 5000 ''overdue''])"
  "addPayment 200 ex_bob 7 (ex_pay 400 200) [ex_other, ex_loan] =
     (Inr (ex_paid 400 200 ''active''), [ex_other, ex_paid 400 200 ''active''])"
  by (simp_all add: addPayment_cases pushed_def pre_save_def foldl_amounts ex_pay_def ex_paid_def
        ex_loan_def ex_other_def ex_bob_def findById_def isLender_def isBorrower_def
        validate_def status_enum_def replaceById_def Let_def js_add_int js_sub_int)

lemma ex_update_raise:
  "updateTransaction 300 ex_users ex_ann 7 ex_raise [ex_paid 400 200 ''active''] =
     (Inr ex_raised, [ex_raised])"
  by (simp add: updateTransaction_cases updated_def apply_update_def ex_raise_def ex_raised_def
        ex_paid_def ex_loan_def ex_ann_def findById_def validate_def truthy_num_def
        truthy_str_def status_enum_def replaceById_def Let_def)

lemma ex_update_reopen:
  "updateTransaction 300 ex_users ex_ann 7 ex_reopen [ex_paid 1000 200 ''completed''] =
     (Inr ex_reopened, [ex_reopened])"
  by (simp add: updateTransaction_cases updated_def apply_update_def ex_reopen_def
        ex_reopened_def ex_paid_def ex_loan_def ex_ann_def findById_def validate_def
        truthy_num_def truthy_str_def status_enum_def replaceById_def Let_def)

lemma ex_update_rename:
  "updateTransaction 300 ex_users ex_ann 7 ex_rename [ex_loan] = (Inr ex_renamed, [ex_renamed])"
  by (simp add: updateTransaction_cases updated_def apply_update_def ex_rename_def
        ex_renamed_def ex_loan_def ex_ann_def ex_bob_def ex_eve_def ex_users_def findById_def
        validate_def truthy_num_def truthy_str_def findOne_username_def status_enum_def
        replaceById_def Let_def js_trim_def is_space_def)

lemma ex_loan_found:
  "findById 7 [ex_loan] = Some ex_loan" "findById 7 [ex_other, ex_loan] = Some ex_loan"
  by (simp_all add: findById_def ex_loan_def ex_other_def)

lemma ex_loan_roles:
  "isLender ex_loan ex_ann" "isBorrower ex_loan ex_bob"
  "\<not> isLender ex_loan ex_bob" "\<not> isBorrower ex_loan ex_ann"
  "\<not> isLender ex_loan ex_eve" "\<not> isBorrower ex_loan ex_eve"
  by (simp_all add: isLender_def isBorrower_def ex_loan_def ex_ann_def ex_bob_def ex_eve_def)

lemma ex_loan_valid: "validate ex_loan"
  by (simp add: validate_def ex_loan_def status_enum_def)

lemma ex_users_distinct: "distinct (map username ex_users)"
  by (simp add: ex_users_def ex_ann_def ex_bob_def ex_eve_def)

lemma ex_store_distinct: "distinct (map tid ex_store)"
  by (simp add: ex_store_def ex_loan_def ex_other_def ex_self_def)

lemma ex_listing:
  "listTransactions ex_ann ex_store =
     [(ex_other, ''borrower''), (ex_self, ''lender''), (ex_self, ''borrower''), (ex_loan, ''lender'')]"
  by (simp add: listTransactions_def find_sorted_def ex_store_def ex_loan_def ex_other_def
        ex_self_def ex_ann_def Let_def)

lemma ex_self_found: "findById 9 ex_store = Some ex_self"
  by (simp add: findById_def ex_store_def ex_loan_def ex_other_def ex_self_def)

lemma ex_self_roles: "isLender ex_self ex_ann" "isBorrower ex_self ex_ann"
  by (simp_all add: isLender_def isBorrower_def ex_self_def ex_loan_def ex_ann_def)

lemma ex_created_spaced:
  "createTransaction 100 7 ex_users ex_ann ex_create_spaced [] =
     (Inr (ex_loan_spaced, True), [ex_loan_spaced])"
  by (simp add: createTransaction_cases created_def ex_create_spaced_def ex_create_def
        ex_loan_spaced_def ex_loan_def ex_users_def ex_ann_def ex_bob_def ex_eve_def
        findOne_username_def js_trim_def is_space_def)

lemma ex_created_big:
  "createTransaction 100 7 ex_users ex_ann ex_create_big [] = (Inr (ex_big0, True), [ex_big0])"
  by (simp add: createTransaction_cases created_def ex_create_big_def ex_create_def ex_big0_def
        ex_loan_def ex_users_def ex_ann_def ex_bob_def ex_eve_def findOne_username_def
        js_trim_def is_space_def)

lemma ex_js_big:
  "js_add 0 9007199254740992 = 9007199254740992"
  "js_add 9007199254740992 1 = 9007199254740992"
  "js_sub 9007199254740994 9007199254740992 = 2"
  by (simp_all add: js_add_def js_sub_def round64_2_53 round64_2_53_1 round64_int)

lemma ex_payment_big:
  "addPayment 200 ex_bob 7 (ex_pay 9007199254740992 200) [ex_big0] =
     (Inr (ex_big [ex_p 9007199254740992 200] 200), [ex_big [ex_p 9007199254740992 200] 200])"
  "addPayment 300 ex_bob 7 (ex_pay 1 300) [ex_big [ex_p 9007199254740992 200] 200] =
     (Inr (ex_big [ex_p 9007199254740992 200, ex_p 1 300] 300),
      [ex_big [ex_p 9007199254740992 200, ex_p 1 300] 300])"
  "addPayment 400 ex_bob 7 (ex_pay 1 400) [ex_big [ex_p 9007199254740992 200, ex_p 1 300] 300] =
     (Inr (ex_big [ex_p 9007199254740992 200, ex_p 1 300, ex_p 1 400] 400),
      [ex_big [ex_p 9007199254740992 200, ex_p 1 300, ex_p 1 400] 400])"
  "addPayment 500 ex_bob 7 (ex_pay 1 500)
       [ex_big [ex_p 9007199254740992 200, ex_p 1 300, ex_p 1 400] 400] =
     (Inr (ex_big [ex_p 9007199254740992 200, ex_p 1 300, ex_p 1 400, ex_p 1 500] 500),
      [ex_big [ex_p 9007199254740992 200, ex_p 1 300, ex_p 1 400, ex_p 1 500] 500])"
  by (simp_all add: addPayment_cases pushed_def pre_save_def foldl_amounts ex_pay_def ex_p_def
        ex_big_def ex_big0_def ex_loan_def ex_bob_def findById_def isLender_def isBorrower_def
        validate_def status_enum_def replaceById_def Let_def ex_js_big)

lemma ex_tenths:
  "js_add (js_add (js_add 0 (6305039478318694 / 2 ^ 53)) (7205759403792794 / 2 ^ 55))
     (7205759403792794 / 2 ^ 56) = 9007199254740991 / 2 ^ 53"
  by (simp add: js_add_def round64_def ulp_def shrink_numeral rne_def)

lemma ex_paid_finite: "derivation_finite (ex_paid 400 200 ''active'')"
  by (simp add: derivation_finite_def finite64_def ex_paid_def ex_loan_def js_add_int js_sub_int)

lemma ex_loan_pay_finite:
  "\<bar>a\<bar> < 2 ^ 52 \<Longrightarrow> a \<in> \<int> \<Longrightarrow>
     derivation_finite (ex_loan\<lparr>payments := payments ex_loan @ [ex_p a d]\<rparr>)"
  by (simp add: derivation_finite_def ex_loan_def ex_p_def js_add_int js_sub_int)
     (simp add: finite64_def)

section \<open>The claims\<close>

subsection \<open>Derived totals\<close>

text \<open>
  Claim C1, as amended. After every committed payment addition whose amounts and sums stay
  within the finite Numbers, \<open>totalPaid\<close> is the hook's left-to-right sum of all
  \<open>payments[].amount\<close> in binary64 arithmetic (which can differ from the exact sum by
  rounding) and \<open>remainingAmount\<close> is the binary64 difference \<open>amount - totalPaid\<close>, in the
  response and in the store. A committed field update does not run the derivation (the hook
  is gated on \<open>isModified('payments')\<close>): it keeps \<open>payments\<close>, \<open>totalPaid\<close> and
  \<open>remainingAmount\<close> as stored and replaces \<open>amount\<close> when the body gives a truthy one.
\<close>

theorem derived_totals:
  "(addPayment now u i pbody txs = (Inr t', txs') \<and> derivation_finite t' \<longrightarrow>
      findById i txs' = Some t'
      \<and> totalPaid t' = foldl js_add 0 (map p_amount (payments t'))
      \<and> remainingAmount t' = js_sub (amount t') (totalPaid t'))
   \<and> (updateTransaction now users u i ubody txs = (Inr t'', txs'') \<longrightarrow>
      findById i txs'' = Some t''
      \<and> (\<exists>t. findById i txs = Some t
            \<and> payments t'' = payments t
            \<and> totalPaid t'' = totalPaid t
            \<and> remainingAmount t'' = remainingAmount t
            \<and> amount t'' = (if truthy_num (ub_amount ubody) then the (ub_amount ubody) else amount t)))"
proof (intro conjI impI)
  assume "addPayment now u i pbody txs = (Inr t', txs') \<and> derivation_finite t'"
  then have "addPayment now u i pbody txs = (Inr t', txs')" ..
  then obtain t a d where t: "findById i txs = Some t"
    and t': "t' = pushed now t \<lparr>p_amount = a, p_date = d, p_notes = pb_notes pbody\<rparr>"
    and txs': "txs' = replaceById t' txs"
    by (rule addPayment_Inr)
  have "tid t' = i"
    using t t' by (simp add: pushed_frame findById_Some)
  then show "findById i txs' = Some t'"
    using t txs' by (simp add: findById_replaceById)
  show "totalPaid t' = foldl js_add 0 (map p_amount (payments t'))"
    by (simp add: t' pushed_totalPaid pushed_frame)
  show "remainingAmount t' = js_sub (amount t') (totalPaid t')"
    by (simp add: t' pushed_remainingAmount pushed_frame)
next
  assume "updateTransaction now users u i ubody txs = (Inr t'', txs'')"
  then obtain t where t: "findById i txs = Some t"
    and t'': "t'' = updated now users ubody t"
    and txs'': "txs'' = replaceById t'' txs"
    by (rule updateTransaction_Inr)
  have "tid t'' = i"
    using t t'' by (simp add: updated_fields findById_Some)
  then show "findById i txs'' = Some t''"
    using t txs'' by (simp add: findById_replaceById)
  show "\<exists>t. findById i txs = Some t \<and> payments t'' = payments t \<and> totalPaid t'' = totalPaid t
      \<and> remainingAmount t'' = remainingAmount t
      \<and> amount t'' = (if truthy_num (ub_amount ubody) then the (ub_amount ubody) else amount t)"
    using t by (simp add: t'' updated_fields apply_update_amount)
qed

theorem derived_totals_witness:
  "addPayment 200 ex_bob 7 (ex_pay 400 200) [ex_loan] =
     (Inr (ex_paid 400 200 ''active''), [ex_paid 400 200 ''active''])
   \<and> derivation_finite (ex_paid 400 200 ''active'')
   \<and> totalPaid (ex_paid 400 200 ''active'') = 400
   \<and> remainingAmount (ex_paid 400 200 ''active'') = 600
   \<and> updateTransaction 300 ex_users ex_ann 7 ex_raise [ex_paid 400 200 ''active''] =
       (Inr ex_raised, [ex_raised])
   \<and> totalPaid ex_raised = 400 \<and> remainingAmount ex_raised = 600 \<and> amount ex_raised = 2000"
  using derived_totals [where now = 200 and u = ex_bob and i = 7 and pbody = "ex_pay 400 200"
      and txs = "[ex_loan]" and t' = "ex_paid 400 200 ''active''"
      and txs' = "[ex_paid 400 200 ''active'']"]
    derived_totals [where now = 300 and users = ex_users and u = ex_ann and i = 7
      and ubody = ex_raise and txs = "[ex_paid 400 200 ''active'']"
      and t'' = ex_raised and txs'' = "[ex_raised]"]
  by (simp add: ex_payment ex_update_raise ex_paid_finite)
     (simp add: ex_raised_def ex_paid_def ex_loan_def ex_raise_def truthy_num_def)

text \<open>
  The claim as stated fails in two ways. After an update of \<open>amount\<close>: a loan of 1000 is
  created, 400 is paid, and the lender raises \<open>amount\<close> to 2000; the update commits, and
  the stored \<open>remainingAmount\<close> is still 600 while \<open>amount - totalPaid\<close> is 1600. And by
  rounding: on a loan of \<open>2^53 + 2\<close>, after payments of \<open>2^53\<close> and 1 the stored \<open>totalPaid\<close>
  is \<open>2^53\<close>, while the payments sum to \<open>2^53 + 1\<close>.
\<close>

theorem totals_after_update_counterexample:
  "createTransaction 100 7 ex_users ex_ann ex_create [] = (Inr (ex_loan, True), [ex_loan])
   \<and> addPayment 200 ex_bob 7 (ex_pay 400 200) [ex_loan] =
       (Inr (ex_paid 400 200 ''active''), [ex_paid 400 200 ''active''])
   \<and> updateTransaction 300 ex_users ex_ann 7 ex_raise [ex_paid 400 200 ''active''] =
       (Inr ex_raised, [ex_raised])
   \<and> remainingAmount ex_raised = 600
   \<and> amount ex_raised - totalPaid ex_raised = 1600
   \<and> remainingAmount ex_raised \<noteq> amount ex_raised - totalPaid ex_raised
   \<and> createTransaction 100 7 ex_users ex_ann ex_create_big [] = (Inr (ex_big0, True), [ex_big0])
   \<and> addPayment 200 ex_bob 7 (ex_pay 9007199254740992 200) [ex_big0] =
       (Inr (ex_big [ex_p 9007199254740992 200] 200), [ex_big [ex_p 9007199254740992 200] 200])
   \<and> addPayment 300 ex_bob 7 (ex_pay 1 300) [ex_big [ex_p 9007199254740992 200] 200] =
       (Inr (ex_big [ex_p 9007199254740992 200, ex_p 1 300] 300),
        [ex_big [ex_p 9007199254740992 200, ex_p 1 300] 300])
   \<and> totalPaid (ex_big [ex_p 9007199254740992 200, ex_p 1 300] 300) = 9007199254740992
   \<and> sum_list (map p_amount (payments (ex_big [ex_p 9007199254740992 200, ex_p 1 300] 300)))
       = 9007199254740993"
  by (simp add: ex_created ex_payment ex_update_raise ex_created_big ex_payment_big)
     (simp add: ex_raised_def ex_paid_def ex_loan_def ex_big_def ex_big0_def ex_p_def)

subsection \<open>Completion\<close>

text \<open>
  Claim C2, as amended. After every committed payment addition, a \<open>remainingAmount\<close> of
  at most 0 comes with status \<open>completed\<close>; a created record has a positive
  \<open>remainingAmount\<close>. A committed field update does not derive the status: it stores the
  status of the body when that is a non-empty string, keeps the stored one otherwise, and
  leaves \<open>remainingAmount\<close> as it was.
\<close>

theorem completed_when_paid_off:
  "(addPayment now u i pbody txs = (Inr t', txs') \<longrightarrow>
      (remainingAmount t' \<le> 0 \<longrightarrow> status t' = ''completed''))
   \<and> (createTransaction now oid users u cbody txs = (Inr (t0, ex), txs0) \<longrightarrow>
      0 < remainingAmount t0)
   \<and> (updateTransaction now users u i ubody txs = (Inr t'', txs'') \<longrightarrow>
      (\<exists>t. findById i txs = Some t
         \<and> remainingAmount t'' = remainingAmount t
         \<and> status t'' = (if truthy_str (ub_status ubody) then the (ub_status ubody) else status t)))"
proof (intro conjI impI)
  assume "addPayment now u i pbody txs = (Inr t', txs')" and "remainingAmount t' \<le> 0"
  then show "status t' = ''completed''"
    by (elim addPayment_Inr) (simp add: pushed_status)
next
  assume "createTransaction now oid users u cbody txs = (Inr (t0, ex), txs0)"
  then show "0 < remainingAmount t0"
    by (elim createTransaction_Inr) (simp add: created_def)
next
  assume "updateTransaction now users u i ubody txs = (Inr t'', txs'')"
  then show "\<exists>t. findById i txs = Some t \<and> remainingAmount t'' = remainingAmount t
      \<and> status t'' = (if truthy_str (ub_status ubody) then the (ub_status ubody) else status t)"
    by (elim updateTransaction_Inr) (simp add: updated_fields apply_update_status)
qed

theorem completed_when_paid_off_witness:
  "addPayment 200 ex_bob 7 (ex_pay 1000 200) [ex_loan] =
     (Inr (ex_paid 1000 200 ''completed''), [ex_paid 1000 200 ''completed''])
   \<and> remainingAmount (ex_paid 1000 200 ''completed'') \<le> 0
   \<and> status (ex_paid 1000 200 ''completed'') = ''completed''
   \<and> createTransaction 100 7 ex_users ex_ann ex_create [] = (Inr (ex_loan, True), [ex_loan])
   \<and> 0 < remainingAmount ex_loan
   \<and> updateTransaction 300 ex_users ex_ann 7 ex_reopen [ex_paid 1000 200 ''completed''] =
       (Inr ex_reopened, [ex_reopened])
   \<and> remainingAmount ex_reopened = 0 \<and> status ex_reopened = ''active''"
  using completed_when_paid_off [where now = 200 and u = ex_bob and i = 7
      and pbody = "ex_pay 1000 200" and txs = "[ex_loan]"
      and t' = "ex_paid 1000 200 ''completed''" and txs' = "[ex_paid 1000 200 ''completed'']"]
    completed_when_paid_off [where now = 100 and oid = 7 and users = ex_users and u = ex_ann
      and cbody = ex_create and txs = "[]" and ?t0.0 = ex_loan and ex = True
      and ?txs0.0 = "[ex_loan]"]
    completed_when_paid_off [where now = 300 and users = ex_users and u = ex_ann and i = 7
      and ubody = ex_reopen and txs = "[ex_paid 1000 200 ''completed'']"
      and t'' = ex_reopened and txs'' = "[ex_reopened]"]
  by (simp add: ex_payment ex_created ex_update_reopen)
     (simp add: ex_reopened_def ex_paid_def ex_loan_def ex_reopen_def truthy_str_def)

text \<open>
  The claim as stated fails after an update that sets the status: the loan of 1000 is paid
  in full and becomes \<open>completed\<close>; the lender then sends \<open>{ status: 'active' }\<close>. The
  update commits, and the stored record has \<open>remainingAmount = 0\<close> with status \<open>active\<close>.
\<close>

theorem completed_after_override_counterexample:
  "createTransaction 100 7 ex_users ex_ann ex_create [] = (Inr (ex_loan, True), [ex_loan])
   \<and> addPayment 200 ex_bob 7 (ex_pay 1000 200) [ex_loan] =
       (Inr (ex_paid 1000 200 ''completed''), [ex_paid 1000 200 ''completed''])
   \<and> updateTransaction 300 ex_users ex_ann 7 ex_reopen [ex_paid 1000 200 ''completed''] =
       (Inr ex_reopened, [ex_reopened])
   \<and> remainingAmount ex_reopened \<le> 0
   \<and> status ex_reopened = ''active''
   \<and> status ex_reopened \<noteq> ''completed''"
  by (simp add: ex_created ex_payment ex_update_reopen)
     (simp add: ex_reopened_def ex_paid_def ex_loan_def)

subsection \<open>Validation\<close>

text \<open>
  Requests that the validators reject: a payment request without a numeric \<open>amount\<close> or
  without a \<open>date\<close>, and a create request with a missing or empty required field, are
  answered 400; a create request whose \<open>amount\<close> is below 1 fails the schema's \<open>min\<close> and
  the save throws. In each case the store is unchanged.
\<close>

lemma invalid_requests_rejected:
  "(pb_amount pbody = None \<or> pb_date pbody = None \<longrightarrow>
      addPayment now u i pbody txs = (Inl ValidationFailure, txs))
   \<and> (cb_borrower cbody = None \<or> cb_borrower cbody = Some [] \<or> cb_amount cbody = None
       \<or> cb_interestRate cbody = None \<or> cb_dueDate cbody = None \<or> cb_startDate cbody = None \<longrightarrow>
      createTransaction now oid users u cbody txs = (Inl ValidationFailure, txs))
   \<and> (cb_amount cbody = Some a \<and> a < 1 \<longrightarrow>
      (\<exists>e. createTransaction now oid users u cbody txs = (Inl e, txs)))"
  by (auto simp: addPayment_cases createTransaction_cases split: option.splits)

text \<open>
  Claim C3. The claim requires a payment request with a negative amount to be rejected
  with the stored record unchanged. The code accepts it: the route checks only
  \<open>isNumeric\<close>, and \<open>payments[].amount\<close> is the one amount of the schema without a
  \<open>min\<close> (\<open>amount\<close> has \<open>min: 1\<close>, \<open>interestRate\<close> has \<open>min: 0\<close>). Bob, the borrower,
  sends a payment of -50 on the loan of 1000: the request commits, and the stored record
  has the payment in \<open>payments\<close>, \<open>totalPaid = -50\<close> and \<open>remainingAmount = 1050\<close>.
\<close>

theorem negative_payment_accepted:
  "pb_amount (ex_pay (- 50) 200) = Some (- 50)
   \<and> addPayment 200 ex_bob 7 (ex_pay (- 50) 200) [ex_loan] =
       (Inr (ex_paid (- 50) 200 ''active''), [ex_paid (- 50) 200 ''active''])
   \<and> payments (ex_paid (- 50) 200 ''active'') = [\<lparr>p_amount = - 50, p_date = 200, p_notes = None\<rparr>]
   \<and> totalPaid (ex_paid (- 50) 200 ''active'') = - 50
   \<and> remainingAmount (ex_paid (- 50) 200 ''active'') = 1050
   \<and> [ex_paid (- 50) 200 ''active''] \<noteq> [ex_loan]"
  by (simp add: ex_payment) (simp add: ex_pay_def ex_paid_def ex_loan_def)

subsection \<open>Borrower resolution\<close>

text \<open>
  Claim C4, as amended. The account lookup compares usernames with the borrower name
  trimmed of surrounding white space (the User schema's \<open>trim\<close> is applied to the query),
  while the record stores the name as given. A committed create stores a record whose
  \<open>borrowerId\<close> is the \<open>_id\<close> of the account whose username equals the trimmed borrower
  name (usernames being unique), in particular of the account whose trimmed username the
  name is exactly, and \<open>null\<close> when no account has the trimmed name as username. A
  committed update whose body carries a borrower name stores that name and sets
  \<open>borrowerId\<close> by the same lookup: to the matching account, or to \<open>null\<close> when there is
  none.
\<close>

theorem borrower_resolution:
  "(createTransaction now oid users u cbody txs = (Inr (t, ex), txs') \<longrightarrow>
      cb_borrower cbody = Some (borrower t) \<and> t \<in> set txs'
      \<and> ((\<forall>bu\<in>set users. username bu \<noteq> js_trim (borrower t)) \<longrightarrow> borrowerId t = None)
      \<and> (\<forall>bu\<in>set users. distinct (map username users) \<and> username bu = js_trim (borrower t)
            \<longrightarrow> borrowerId t = Some (user_id bu))
      \<and> (\<forall>bu\<in>set users. distinct (map username users) \<and> username bu = borrower t
              \<and> js_trim (username bu) = username bu
            \<longrightarrow> borrowerId t = Some (user_id bu)))
   \<and> (updateTransaction now users u i ubody txs2 = (Inr t2, txs3)
       \<and> ub_borrower ubody = Some b \<and> b \<noteq> [] \<longrightarrow>
      borrower t2 = b \<and> findById i txs3 = Some t2
      \<and> ((\<forall>bu\<in>set users. username bu \<noteq> js_trim b) \<longrightarrow> borrowerId t2 = None)
      \<and> (\<forall>bu\<in>set users. distinct (map username users) \<and> username bu = js_trim b
            \<longrightarrow> borrowerId t2 = Some (user_id bu))
      \<and> (\<forall>bu\<in>set users. distinct (map username users) \<and> username bu = b
              \<and> js_trim (username bu) = username bu
            \<longrightarrow> borrowerId t2 = Some (user_id bu)))"
proof (rule conjI; rule impI)
  assume "createTransaction now oid users u cbody txs = (Inr (t, ex), txs')"
  then obtain b0 a r dd sd where b0: "cb_borrower cbody = Some b0"
    and t: "t = created now oid users u b0 a r dd sd (cb_description cbody)"
    and txs': "txs' = txs @ [t]"
    by (rule createTransaction_Inr)
  have name: "borrower t = b0"
    and bid: "borrowerId t = map_option user_id (findOne_username b0 users)"
    by (simp_all add: t created_def)
  show "cb_borrower cbody = Some (borrower t) \<and> t \<in> set txs'
      \<and> ((\<forall>bu\<in>set users. username bu \<noteq> js_trim (borrower t)) \<longrightarrow> borrowerId t = None)
      \<and> (\<forall>bu\<in>set users. distinct (map username users) \<and> username bu = js_trim (borrower t)
            \<longrightarrow> borrowerId t = Some (user_id bu))
      \<and> (\<forall>bu\<in>set users. distinct (map username users) \<and> username bu = borrower t
              \<and> js_trim (username bu) = username bu
            \<longrightarrow> borrowerId t = Some (user_id bu))"
    using resolved_borrowerId [OF bid] by (auto simp: name b0 txs')
next
  assume "updateTransaction now users u i ubody txs2 = (Inr t2, txs3)
       \<and> ub_borrower ubody = Some b \<and> b \<noteq> []"
  then have up: "updateTransaction now users u i ubody txs2 = (Inr t2, txs3)"
    and b: "ub_borrower ubody = Some b" "b \<noteq> []"
    by simp_all
  from up obtain t0 where t0: "findById i txs2 = Some t0"
    and t2: "t2 = updated now users ubody t0"
    and txs: "txs3 = replaceById t2 txs2"
    by (rule updateTransaction_Inr)
  have name: "borrower t2 = b"
    and bid: "borrowerId t2 = map_option user_id (findOne_username b users)"
    using b by (simp_all add: t2 updated_fields apply_update_borrower truthy_str_def)
  have "tid t2 = i"
    using t0 by (simp add: t2 updated_fields findById_Some)
  then have "findById i txs3 = Some t2"
    using t0 by (simp add: txs findById_replaceById)
  then show "borrower t2 = b \<and> findById i txs3 = Some t2
      \<and> ((\<forall>bu\<in>set users. username bu \<noteq> js_trim b) \<longrightarrow> borrowerId t2 = None)
      \<and> (\<forall>bu\<in>set users. distinct (map username users) \<and> username bu = js_trim b
            \<longrightarrow> borrowerId t2 = Some (user_id bu))
      \<and> (\<forall>bu\<in>set users. distinct (map username users) \<and> username bu = b
              \<and> js_trim (username bu) = username bu
            \<longrightarrow> borrowerId t2 = Some (user_id bu))"
    using resolved_borrowerId [OF bid] by (auto simp: name)
qed

theorem borrower_resolution_witness:
  "createTransaction 100 7 ex_users ex_ann ex_create [] = (Inr (ex_loan, True), [ex_loan])
   \<and> ex_bob \<in> set ex_users \<and> distinct (map username ex_users)
   \<and> username ex_bob = borrower ex_loan \<and> js_trim (username ex_bob) = username ex_bob
   \<and> borrowerId ex_loan = Some (user_id ex_bob)
   \<and> createTransaction 100 7 ex_users ex_ann ex_create_spaced [] =
       (Inr (ex_loan_spaced, True), [ex_loan_spaced])
   \<and> username ex_bob = js_trim (borrower ex_loan_spaced)
   \<and> borrowerId ex_loan_spaced = Some (user_id ex_bob)
   \<and> updateTransaction 300 ex_users ex_ann 7 ex_rename [ex_loan] = (Inr ex_renamed, [ex_renamed])
   \<and> ub_borrower ex_rename = Some ''zed''
   \<and> map username ex_users = [''ann'', ''bob'', ''eve''] \<and> js_trim ''zed'' = ''zed''
   \<and> borrowerId ex_renamed = None"
proof -
  have bob: "ex_bob \<in> set ex_users" "username ex_bob = borrower ex_loan"
    "js_trim (username ex_bob) = username ex_bob"
    "username ex_bob = js_trim (borrower ex_loan_spaced)"
    by (simp_all add: ex_users_def ex_bob_def ex_loan_def ex_loan_spaced_def js_trim_def
          is_space_def)
  have zed: "ub_borrower ex_rename = Some ''zed''" "''zed'' \<noteq> []"
    "\<forall>bu\<in>set ex_users. username bu \<noteq> js_trim ''zed''" "js_trim ''zed'' = ''zed''"
    by (simp_all add: ex_rename_def ex_users_def ex_ann_def ex_bob_def ex_eve_def js_trim_def
          is_space_def)
  have names: "map username ex_users = [''ann'', ''bob'', ''eve'']"
    by (simp add: ex_users_def ex_ann_def ex_bob_def ex_eve_def)
  have "\<forall>bu\<in>set ex_users. distinct (map username ex_users) \<and> username bu = borrower ex_loan
          \<and> js_trim (username bu) = username bu
          \<longrightarrow> borrowerId ex_loan = Some (user_id bu)"
    using borrower_resolution [where now = 100 and oid = 7 and users = ex_users and u = ex_ann
        and cbody = ex_create and txs = "[]" and t = ex_loan and ex = True and txs' = "[ex_loan]",
        THEN conjunct1, THEN mp, OF ex_created]
    by blast
  then have 1: "borrowerId ex_loan = Some (user_id ex_bob)"
    using bob ex_users_distinct by blast
  have "\<forall>bu\<in>set ex_users. distinct (map username ex_users)
          \<and> username bu = js_trim (borrower ex_loan_spaced)
          \<longrightarrow> borrowerId ex_loan_spaced = Some (user_id bu)"
    using borrower_resolution [where now = 100 and oid = 7 and users = ex_users and u = ex_ann
        and cbody = ex_create_spaced and txs = "[]" and t = ex_loan_spaced and ex = True
        and txs' = "[ex_loan_spaced]", THEN conjunct1, THEN mp, OF ex_created_spaced]
    by blast
  then have 2: "borrowerId ex_loan_spaced = Some (user_id ex_bob)"
    using bob ex_users_distinct by blast
  have "(\<forall>bu\<in>set ex_users. username bu \<noteq> js_trim ''zed'') \<longrightarrow> borrowerId ex_renamed = None"
    using borrower_resolution [where now = 300 and users = ex_users and u = ex_ann and i = 7
        and ubody = ex_rename and ?txs2.0 = "[ex_loan]" and b = "''zed''"
        and ?t2.0 = ex_renamed and ?txs3.0 = "[ex_renamed]",
        THEN conjunct2, THEN mp, OF conjI [OF ex_update_rename conjI [OF zed(1) zed(2)]]]
    by blast
  then have 3: "borrowerId ex_renamed = None"
    using zed(3) by blast
  show ?thesis
    using ex_created ex_created_spaced ex_update_rename bob ex_users_distinct zed(1) zed(4)
      names 1 2 3
    by blast
qed

text \<open>
  The claim as stated fails on a name with surrounding spaces: ann creates a loan for
  \<open>' bob '\<close>. No account has that username, the record stores the name with its spaces,
  and \<open>borrowerId\<close> is bob's \<open>_id\<close>, not \<open>null\<close>.
\<close>

theorem untrimmed_borrower_counterexample:
  "cb_borrower ex_create_spaced = Some '' bob ''
   \<and> map username ex_users = [''ann'', ''bob'', ''eve'']
   \<and> createTransaction 100 7 ex_users ex_ann ex_create_spaced [] =
       (Inr (ex_loan_spaced, True), [ex_loan_spaced])
   \<and> borrower ex_loan_spaced = '' bob ''
   \<and> borrowerId ex_loan_spaced = Some 2
   \<and> borrowerId ex_loan_spaced \<noteq> None"
  by (simp add: ex_created_spaced)
     (simp add: ex_create_spaced_def ex_create_def ex_loan_spaced_def ex_loan_def ex_users_def
        ex_ann_def ex_bob_def ex_eve_def)

subsection \<open>The listing\<close>

text \<open>
  Claim C5. In a collection with distinct ids, the listing for a user holds the entry
  \<open>(t, lender)\<close> once for every stored record the user lent and never otherwise, and the
  entry \<open>(t, borrower)\<close> once for every stored record whose \<open>borrowerId\<close> or borrower
  name is the user's and never otherwise. So a record has one entry when the user has one
  role on it, two when the user has both, none when neither. Every entry carries one of
  the two roles, and the entries are in descending order of \<open>createdAt\<close>.
\<close>

theorem history_complete:
  "distinct (map tid txs) \<Longrightarrow>
     count_list (listTransactions u txs) (t, ''lender'')
       = (if t \<in> set txs \<and> isLender t u then 1 else 0)
     \<and> count_list (listTransactions u txs) (t, ''borrower'')
       = (if t \<in> set txs \<and> isBorrower t u then 1 else 0)
     \<and> length (filter (\<lambda>e. fst e = t) (listTransactions u txs))
       = (if t \<in> set txs then (if isLender t u then 1 else 0) + (if isBorrower t u then 1 else 0)
          else 0)
     \<and> (\<forall>e\<in>set (listTransactions u txs). snd e = ''lender'' \<or> snd e = ''borrower'')
     \<and> sorted_wrt (\<lambda>a b. createdAt (fst b) \<le> createdAt (fst a)) (listTransactions u txs)"
  using listTransactions_roles [of _ u txs]
  by (simp add: distinct_map listTransactions_count_lender listTransactions_count_borrower
        listTransactions_entries listTransactions_sorted)

theorem history_complete_witness:
  "distinct (map tid ex_store)
   \<and> listTransactions ex_ann ex_store =
       [(ex_other, ''borrower''), (ex_self, ''lender''), (ex_self, ''borrower''), (ex_loan, ''lender'')]
   \<and> ex_self \<in> set ex_store \<and> isLender ex_self ex_ann \<and> isBorrower ex_self ex_ann
   \<and> count_list (listTransactions ex_ann ex_store) (ex_self, ''lender'') = 1
   \<and> count_list (listTransactions ex_ann ex_store) (ex_self, ''borrower'') = 1
   \<and> length (filter (\<lambda>e. fst e = ex_self) (listTransactions ex_ann ex_store)) = 2"
proof -
  have m: "ex_self \<in> set ex_store"
    by (simp add: ex_store_def)
  show ?thesis
    using history_complete [OF ex_store_distinct, of ex_ann ex_self] ex_store_distinct
      ex_listing m ex_self_roles
    by simp
qed

subsection \<open>Authorization\<close>

text \<open>
  Claim C6. For a stored record and a caller who is neither its lender nor its borrower
  (by \<open>borrowerId\<close> or by borrower name), the read, the update with any body, the delete
  and the payment addition with an amount and a date each answer \<open>Unauthorized\<close> and
  leave the store as it was. A payment request with any body at all fails for such a
  caller and leaves the store as it was.
\<close>

theorem stranger_unauthorized:
  "findById i txs = Some t \<Longrightarrow> \<not> isLender t u \<Longrightarrow> \<not> isBorrower t u \<Longrightarrow>
     getTransaction u i txs = (Inl Unauthorized, txs)
     \<and> updateTransaction now users u i ubody txs = (Inl Unauthorized, txs)
     \<and> deleteTransaction u i txs = (Inl Unauthorized, txs)
     \<and> addPayment now u i \<lparr>pb_amount = Some a, pb_date = Some d, pb_notes = n\<rparr> txs
         = (Inl Unauthorized, txs)
     \<and> (\<exists>e. addPayment now u i pbody txs = (Inl e, txs))"
  by (auto simp: getTransaction_def updateTransaction_cases deleteTransaction_def
        addPayment_cases isLender_def split: option.splits)

theorem stranger_unauthorized_witness:
  "findById 7 [ex_loan] = Some ex_loan \<and> \<not> isLender ex_loan ex_eve \<and> \<not> isBorrower ex_loan ex_eve
   \<and> getTransaction ex_eve 7 [ex_loan] = (Inl Unauthorized, [ex_loan])
   \<and> updateTransaction 300 ex_users ex_eve 7 ex_raise [ex_loan] = (Inl Unauthorized, [ex_loan])
   \<and> deleteTransaction ex_eve 7 [ex_loan] = (Inl Unauthorized, [ex_loan])
   \<and> addPayment 300 ex_eve 7 \<lparr>pb_amount = Some 400, pb_date = Some 300, pb_notes = None\<rparr> [ex_loan]
       = (Inl Unauthorized, [ex_loan])"
  using stranger_unauthorized [OF ex_loan_found(1) ex_loan_roles(5) ex_loan_roles(6),
      where now = 300 and users = ex_users and ubody = ex_raise and a = 400 and d = 300
      and n = None] ex_loan_found ex_loan_roles
  by simp

subsection \<open>The overdue transition\<close>

text \<open>
  Claim C7. For a stored valid record and its lender or borrower, a payment with an amount
  and a date that leaves the derived \<open>remainingAmount\<close> above 0 (all values staying within
  the finite Numbers) commits, and the record is written back with that
  \<open>remainingAmount\<close>: if \<open>dueDate\<close> is before the current time and the stored status was
  not \<open>completed\<close>, the new status is \<open>overdue\<close>; if \<open>dueDate\<close> is not before the current
  time, the status is the stored one (it is neither reset to \<open>active\<close> nor moved to
  \<open>defaulted\<close>).
\<close>

theorem overdue_transition:
  "findById i txs = Some t \<Longrightarrow> isLender t u \<or> isBorrower t u \<Longrightarrow> validate t \<Longrightarrow>
   derivation_finite (t\<lparr>payments := payments t @ [\<lparr>p_amount = a, p_date = d, p_notes = n\<rparr>]\<rparr>) \<Longrightarrow>
   0 < js_sub (amount t) (foldl js_add 0 (map p_amount (payments t) @ [a])) \<Longrightarrow>
     \<exists>t'. addPayment now u i \<lparr>pb_amount = Some a, pb_date = Some d, pb_notes = n\<rparr> txs
             = (Inr t', replaceById t' txs)
        \<and> findById i (replaceById t' txs) = Some t'
        \<and> remainingAmount t' = js_sub (amount t) (foldl js_add 0 (map p_amount (payments t) @ [a]))
        \<and> (dueDate t < now \<and> status t \<noteq> ''completed'' \<longrightarrow> status t' = ''overdue'')
        \<and> (\<not> dueDate t < now \<longrightarrow> status t' = status t)"
  by (auto simp: addPayment_cases pushed_frame pushed_totalPaid pushed_remainingAmount
        pushed_status findById_replaceById findById_Some)

theorem overdue_transition_witness:
  "findById 7 [ex_loan] = Some ex_loan \<and> isBorrower ex_loan ex_bob \<and> validate ex_loan
   \<and> derivation_finite (ex_loan\<lparr>payments := payments ex_loan @ [ex_p 400 5000]\<rparr>)
   \<and> js_sub (amount ex_loan) (foldl js_add 0 (map p_amount (payments ex_loan) @ [400])) = 600
   \<and> dueDate ex_loan < 5000 \<and> status ex_loan \<noteq> ''completed''
   \<and> (\<exists>t'. addPayment 5000 ex_bob 7 (ex_pay 400 5000) [ex_loan] = (Inr t', replaceById t' [ex_loan])
         \<and> findById 7 (replaceById t' [ex_loan]) = Some t'
         \<and> remainingAmount t' = 600 \<and> status t' = ''overdue'')
   \<and> derivation_finite (ex_loan\<lparr>payments := payments ex_loan @ [ex_p 400 200]\<rparr>)
   \<and> \<not> dueDate ex_loan < 200 \<and> status ex_loan = ''active''
   \<and> (\<exists>t'. addPayment 200 ex_bob 7 (ex_pay 400 200) [ex_loan] = (Inr t', replaceById t' [ex_loan])
         \<and> findById 7 (replaceById t' [ex_loan]) = Some t'
         \<and> remainingAmount t' = 600 \<and> status t' = ''active'')"
proof -
  have r: "isLender ex_loan ex_bob \<or> isBorrower ex_loan ex_bob"
    by (simp add: ex_loan_roles)
  have f: "derivation_finite (ex_loan\<lparr>payments := payments ex_loan @ [ex_p 400 5000]\<rparr>)"
    "derivation_finite (ex_loan\<lparr>payments := payments ex_loan @ [ex_p 400 200]\<rparr>)"
    by (simp_all add: ex_loan_pay_finite)
  have v: "js_sub (amount ex_loan) (foldl js_add 0 (map p_amount (payments ex_loan) @ [400])) = 600"
    by (simp add: ex_loan_def js_add_int js_sub_int)
  then have p: "0 < js_sub (amount ex_loan) (foldl js_add 0 (map p_amount (payments ex_loan) @ [400]))"
    by simp
  have d: "dueDate ex_loan < 5000" "status ex_loan \<noteq> ''completed''" "\<not> dueDate ex_loan < 200"
    "status ex_loan = ''active''"
    by (simp_all add: ex_loan_def)
  show ?thesis
    using overdue_transition [OF ex_loan_found(1) r ex_loan_valid f(1) [unfolded ex_p_def] p,
        of 5000]
      overdue_transition [OF ex_loan_found(1) r ex_loan_valid f(2) [unfolded ex_p_def] p,
        of 200]
      ex_loan_found(1) ex_loan_roles(2) ex_loan_valid f v d
    by (simp add: ex_pay_def)
qed

subsection \<open>Overpayment\<close>

text \<open>
  Claim C8, as amended. The derivation is a total function of the document (\<open>pre_save\<close>
  has no failing branch). For a stored valid record and its lender or borrower, every
  payment with an amount and a date (all values staying within the finite Numbers) commits:
  the record is written back with the payment appended, \<open>totalPaid\<close> the binary64 sum and
  \<open>remainingAmount\<close> the binary64 difference. When that \<open>totalPaid\<close> reaches \<open>amount\<close>,
  \<open>remainingAmount\<close> is at most 0 and the status is \<open>completed\<close>; when it exceeds an
  \<open>amount\<close> that is a binary64 value, \<open>remainingAmount\<close> is negative. An exact sum of the
  payments above \<open>amount\<close> does not suffice: rounding can keep \<open>totalPaid\<close> below it.
\<close>

theorem overpayment_commits:
  "findById i txs = Some t \<Longrightarrow> isLender t u \<or> isBorrower t u \<Longrightarrow> validate t \<Longrightarrow>
   derivation_finite (t\<lparr>payments := payments t @ [\<lparr>p_amount = a, p_date = d, p_notes = n\<rparr>]\<rparr>) \<Longrightarrow>
     \<exists>t'. addPayment now u i \<lparr>pb_amount = Some a, pb_date = Some d, pb_notes = n\<rparr> txs
             = (Inr t', replaceById t' txs)
        \<and> findById i (replaceById t' txs) = Some t'
        \<and> payments t' = payments t @ [\<lparr>p_amount = a, p_date = d, p_notes = n\<rparr>]
        \<and> totalPaid t' = foldl js_add 0 (map p_amount (payments t) @ [a])
        \<and> remainingAmount t' = js_sub (amount t) (totalPaid t')
        \<and> (amount t \<le> totalPaid t' \<longrightarrow> remainingAmount t' \<le> 0 \<and> status t' = ''completed'')
        \<and> (binary64 (amount t) \<and> amount t < totalPaid t' \<longrightarrow> remainingAmount t' < 0)"
  by (auto simp: addPayment_cases pushed_frame pushed_totalPaid pushed_remainingAmount
        pushed_status findById_replaceById findById_Some js_sub_nonpos
        intro!: js_sub_neg js_add_grid)

theorem overpayment_commits_witness:
  "findById 7 [ex_loan] = Some ex_loan \<and> isBorrower ex_loan ex_bob \<and> validate ex_loan
   \<and> derivation_finite (ex_loan\<lparr>payments := payments ex_loan @ [ex_p 1500 200]\<rparr>)
   \<and> binary64 (amount ex_loan) \<and> amount ex_loan = 1000
   \<and> (\<exists>t'. addPayment 200 ex_bob 7 (ex_pay 1500 200) [ex_loan] = (Inr t', replaceById t' [ex_loan])
        \<and> findById 7 (replaceById t' [ex_loan]) = Some t'
        \<and> payments t' = [ex_p 1500 200]
        \<and> totalPaid t' = 1500
        \<and> remainingAmount t' = - 500
        \<and> remainingAmount t' < 0
        \<and> status t' = ''completed'')"
proof -
  have r: "isLender ex_loan ex_bob \<or> isBorrower ex_loan ex_bob"
    by (simp add: ex_loan_roles)
  have f: "derivation_finite (ex_loan\<lparr>payments := payments ex_loan @ [ex_p 1500 200]\<rparr>)"
    by (simp add: ex_loan_pay_finite)
  have b: "binary64 (amount ex_loan)" "amount ex_loan = 1000" "payments ex_loan = []"
    by (simp_all add: ex_loan_def binary64_int)
  show ?thesis
    using overpayment_commits [OF ex_loan_found(1) r ex_loan_valid f [unfolded ex_p_def], of 200]
      ex_loan_found(1) ex_loan_roles(2) ex_loan_valid f b
    by (auto simp: ex_pay_def ex_p_def js_add_int js_sub_int)
qed

text \<open>
  The claim as stated fails by rounding. Ann lends \<open>2^53 + 2\<close>; bob pays \<open>2^53\<close> and then
  three times 1. Every payment commits. The payments sum to \<open>2^53 + 3\<close>, above the amount,
  but each sum \<open>2^53 + 1\<close> is rounded to \<open>2^53\<close>: the stored \<open>totalPaid\<close> is \<open>2^53\<close>,
  \<open>remainingAmount\<close> is 2 and the status is still \<open>active\<close>.
\<close>

theorem overpayment_rounding_counterexample:
  "createTransaction 100 7 ex_users ex_ann ex_create_big [] = (Inr (ex_big0, True), [ex_big0])
   \<and> addPayment 200 ex_bob 7 (ex_pay 9007199254740992 200) [ex_big0] =
       (Inr (ex_big [ex_p 9007199254740992 200] 200), [ex_big [ex_p 9007199254740992 200] 200])
   \<and> addPayment 300 ex_bob 7 (ex_pay 1 300) [ex_big [ex_p 9007199254740992 200] 200] =
       (Inr (ex_big [ex_p 9007199254740992 200, ex_p 1 300] 300),
        [ex_big [ex_p 9007199254740992 200, ex_p 1 300] 300])
   \<and> addPayment 400 ex_bob 7 (ex_pay 1 400) [ex_big [ex_p 9007199254740992 200, ex_p 1 300] 300] =
       (Inr (ex_big [ex_p 9007199254740992 200, ex_p 1 300, ex_p 1 400] 400),
        [ex_big [ex_p 9007199254740992 200, ex_p 1 300, ex_p 1 400] 400])
   \<and> addPayment 500 ex_bob 7 (ex_pay 1 500)
         [ex_big [ex_p 9007199254740992 200, ex_p 1 300, ex_p 1 400] 400] =
       (Inr (ex_big [ex_p 9007199254740992 200, ex_p 1 300, ex_p 1 400, ex_p 1 500] 500),
        [ex_big [ex_p 9007199254740992 200, ex_p 1 300, ex_p 1 400, ex_p 1 500] 500])
   \<and> amount (ex_big [ex_p 9007199254740992 200, ex_p 1 300, ex_p 1 400, ex_p 1 500] 500)
       = 9007199254740994
   \<and> sum_list (map p_amount
         (payments (ex_big [ex_p 9007199254740992 200, ex_p 1 300, ex_p 1 400, ex_p 1 500] 500)))
       = 9007199254740995
   \<and> totalPaid (ex_big [ex_p 9007199254740992 200, ex_p 1 300, ex_p 1 400, ex_p 1 500] 500)
       = 9007199254740992
   \<and> remainingAmount (ex_big [ex_p 9007199254740992 200, ex_p 1 300, ex_p 1 400, ex_p 1 500] 500)
       = 2
   \<and> status (ex_big [ex_p 9007199254740992 200, ex_p 1 300, ex_p 1 400, ex_p 1 500] 500)
       = ''active''"
  by (simp add: ex_created_big ex_payment_big)
     (simp add: ex_big_def ex_big0_def ex_loan_def ex_p_def)

subsection \<open>The frame of a payment\<close>

text \<open>
  Claim C9. A committed payment addition returns the stored record with only
  \<open>payments\<close>, \<open>totalPaid\<close>, \<open>remainingAmount\<close>, \<open>status\<close> and \<open>updatedAt\<close> replaced:
  \<open>lender\<close>, \<open>borrower\<close>, \<open>borrowerId\<close>, \<open>amount\<close>, \<open>interestRate\<close>, \<open>startDate\<close>,
  \<open>dueDate\<close> and \<open>description\<close> are the stored ones. The collection keeps its length, and
  every document with another id stays in its place unchanged.
\<close>

theorem addPayment_frame:
  "addPayment now u i pbody txs = (Inr t', txs') \<Longrightarrow> findById i txs = Some t \<Longrightarrow>
     t' = t\<lparr>payments := payments t', totalPaid := totalPaid t',
            remainingAmount := remainingAmount t', status := status t', updatedAt := updatedAt t'\<rparr>
     \<and> lender t' = lender t \<and> borrower t' = borrower t \<and> borrowerId t' = borrowerId t
     \<and> amount t' = amount t \<and> interestRate t' = interestRate t \<and> startDate t' = startDate t
     \<and> dueDate t' = dueDate t \<and> description t' = description t
     \<and> length txs' = length txs
     \<and> (\<forall>k < length txs. tid (txs ! k) \<noteq> i \<longrightarrow> txs' ! k = txs ! k)"
proof (erule addPayment_Inr)
  fix t0 a d
  assume t0: "findById i txs = Some t0"
    and t': "t' = pushed now t0 \<lparr>p_amount = a, p_date = d, p_notes = pb_notes pbody\<rparr>"
    and txs': "txs' = replaceById t' txs"
    and t: "findById i txs = Some t"
  from t0 t have [simp]: "t0 = t" by simp
  have i: "tid t' = i"
    using t t' by (simp add: pushed_frame findById_Some)
  have "t' = t\<lparr>payments := payments t', totalPaid := totalPaid t',
            remainingAmount := remainingAmount t', status := status t', updatedAt := updatedAt t'\<rparr>"
    unfolding t' by (subst pushed_eq) (simp add: pushed_frame)
  moreover have "lender t' = lender t \<and> borrower t' = borrower t \<and> borrowerId t' = borrowerId t
     \<and> amount t' = amount t \<and> interestRate t' = interestRate t \<and> startDate t' = startDate t
     \<and> dueDate t' = dueDate t \<and> description t' = description t"
    by (simp add: t' pushed_frame)
  moreover have "length txs' = length txs"
    by (simp add: txs' replaceById_others)
  moreover have "\<forall>k < length txs. tid (txs ! k) \<noteq> i \<longrightarrow> txs' ! k = txs ! k"
    using i by (simp add: txs' replaceById_others)
  ultimately show ?thesis by blast
qed

theorem addPayment_frame_witness:
  "addPayment 200 ex_bob 7 (ex_pay 400 200) [ex_other, ex_loan] =
     (Inr (ex_paid 400 200 ''active''), [ex_other, ex_paid 400 200 ''active''])
   \<and> findById 7 [ex_other, ex_loan] = Some ex_loan
   \<and> amount (ex_paid 400 200 ''active'') = amount ex_loan
   \<and> dueDate (ex_paid 400 200 ''active'') = dueDate ex_loan
   \<and> tid ([ex_other, ex_loan] ! 0) \<noteq> 7
   \<and> [ex_other, ex_paid 400 200 ''active''] ! 0 = [ex_other, ex_loan] ! 0"
  using addPayment_frame [OF ex_payment(5) ex_loan_found(2)] ex_payment(5) ex_loan_found(2)
  by (simp add: ex_other_def ex_loan_def)

subsection \<open>The role of a read\<close>

text \<open>
  Claim C10. When the caller is both lender and borrower of a stored record, the read of
  that record succeeds and reports the single role \<open>lender\<close>, while the listing holds the
  record under both roles.
\<close>

theorem read_reports_lender_first:
  "findById i txs = Some t \<Longrightarrow> isLender t u \<Longrightarrow> isBorrower t u \<Longrightarrow>
     getTransaction u i txs = (Inr (t, ''lender''), txs)
     \<and> (t, ''lender'') \<in> set (listTransactions u txs)
     \<and> (t, ''borrower'') \<in> set (listTransactions u txs)"
  by (auto simp: getTransaction_def listTransactions_def find_sorted_def Let_def isLender_def
        isBorrower_iff dest: findById_Some)

theorem read_reports_lender_first_witness:
  "findById 9 ex_store = Some ex_self \<and> isLender ex_self ex_ann \<and> isBorrower ex_self ex_ann
   \<and> getTransaction ex_ann 9 ex_store = (Inr (ex_self, ''lender''), ex_store)
   \<and> (ex_self, ''lender'') \<in> set (listTransactions ex_ann ex_store)
   \<and> (ex_self, ''borrower'') \<in> set (listTransactions ex_ann ex_store)"
  using read_reports_lender_first [OF ex_self_found ex_self_roles] ex_self_found ex_self_roles
  by simp

end
